theory Spec2Isabelle
  imports Main "HOL-Library.Sublist"
begin

section \<open>The pulumi plugin commands of Garden (plugins/pulumi/commands.ts)\<close>

text \<open>
  A shallow embedding of \<^verbatim>\<open>plugins/pulumi/commands.ts\<close>: the command specification
  table, the task class \<^verbatim>\<open>PulumiPluginCommandTask\<close> (constructor, \<^verbatim>\<open>getName\<close>,
  \<^verbatim>\<open>getDescription\<close>, \<^verbatim>\<open>resolveDependencies\<close>, \<^verbatim>\<open>process\<close>) and the command
  handler built by \<^verbatim>\<open>makePulumiCommand\<close>.

  A rejected promise or a thrown exception is the value \<open>Inl err\<close>. Every call to an
  external collaborator (logger, pulumi helper, Garden instance) is written to a trace,
  in the order in which the code performs it, and its outcome is taken from a record of
  outcome functions that is a parameter of the model.
\<close>

subsection \<open>Data model\<close>

text \<open>A JavaScript \<^verbatim>\<open>Error\<close>, identified by its message.\<close>

datatype error = Error string

text \<open>
  \<^verbatim>\<open>GardenModule\<close> / \<^verbatim>\<open>PulumiModule\<close>: the fields the file reads are \<^verbatim>\<open>name\<close>,
  \<^verbatim>\<open>type\<close> and \<^verbatim>\<open>spec.allowDestroy\<close>. The last one is read for its truthiness
  only; \<open>None\<close> stands for \<^verbatim>\<open>undefined\<close>.
\<close>

record garden_module =
  mod_name :: string
  mod_type :: string
  spec_allowDestroy :: "bool option"

text \<open>\<^verbatim>\<open>GardenService\<close>: \<^verbatim>\<open>name\<close>, \<^verbatim>\<open>module\<close>, \<^verbatim>\<open>version\<close>.\<close>

record garden_service =
  service_name :: string
  service_module :: garden_module
  service_version :: string

text \<open>
  \<^verbatim>\<open>PulumiProvider\<close>: \<open>pluginTaskConcurrencyLimit\<close> is
  \<^verbatim>\<open>provider.config.pluginTaskConcurrencyLimit\<close>.
\<close>

record provider =
  provider_name :: string
  pluginTaskConcurrencyLimit :: nat

text \<open>\<^verbatim>\<open>PluginContext\<close>: the file reads \<^verbatim>\<open>ctx.provider\<close> and \<^verbatim>\<open>ctx.events\<close>.\<close>

record plugin_context =
  ctx_provider :: provider
  ctx_events :: string

text \<open>A \<^verbatim>\<open>LogEntry\<close> is a reference; it is identified by a name.\<close>

type_synonym log_entry = string

text \<open>\<^verbatim>\<open>PulumiParamsWithService\<close>: \<^verbatim>\<open>{ ctx, provider, log, module, service }\<close>.\<close>

record pulumi_params =
  pp_ctx :: plugin_context
  pp_provider :: provider
  pp_log :: log_entry
  pp_module :: garden_module
  pp_service :: garden_service

subsection \<open>Effects\<close>

text \<open>
  The calls a task or a before-hook makes, as they appear in the trace.
  \<open>LogInfoStatus section msg status\<close> is \<^verbatim>\<open>log.info({ section, msg, status })\<close>,
  \<open>LogInfo msg\<close> is \<^verbatim>\<open>log.info(msg)\<close>, \<open>LogSetError msg\<close> and \<open>LogSetSuccess msg\<close> are
  \<^verbatim>\<open>log.setError({ msg })\<close> and \<^verbatim>\<open>log.setSuccess({ msg })\<close>;
  \<open>PreviewStack params logPreview previewDirPath\<close> is
  \<^verbatim>\<open>previewStack({ ...params, logPreview, previewDirPath })\<close>.
\<close>

datatype event =
    LogInfoStatus string string string
  | LogInfo string
  | LogSetError string
  | LogSetSuccess string
  | EmptyDir string
  | SelectStack pulumi_params
  | PreviewStack pulumi_params bool string
  | CancelUpdate pulumi_params
  | RefreshResources pulumi_params
  | ReimportStack pulumi_params
  | DeletePulumiService pulumi_params

text \<open>An asynchronous computation: its outcome and the calls it made, oldest first.\<close>

type_synonym ('e, 'a) io = "(error + 'a) \<times> 'e list"

definition io_return :: "'a \<Rightarrow> ('e, 'a) io" where
  "io_return x = (Inr x, [])"

text \<open>\<^verbatim>\<open>await m; f(result)\<close>: a rejection of \<open>m\<close> ends the computation.\<close>

definition io_bind :: "('e, 'a) io \<Rightarrow> ('a \<Rightarrow> ('e, 'b) io) \<Rightarrow> ('e, 'b) io" where
  "io_bind m f =
     (case m of
        (Inl err, es) \<Rightarrow> (Inl err, es)
      | (Inr x, es) \<Rightarrow> (case f x of (r, es') \<Rightarrow> (r, es @ es')))"

text \<open>A call to an external collaborator: the call is recorded, the outcome is given.\<close>

definition call :: "'e \<Rightarrow> error + 'a \<Rightarrow> ('e, 'a) io" where
  "call ev outcome = (outcome, [ev])"

text \<open>
  What the file imports and does not define: the \<^verbatim>\<open>chalk\<close> styles, the duration of a
  log entry as it is printed in a template string, and the pulumi helpers.
  Each helper is given by its outcome on the parameters it is called with.
\<close>

record externals =
  chalk_gray :: "string \<Rightarrow> string"
  chalk_white :: "string \<Rightarrow> string"
  chalk_red :: "string \<Rightarrow> string"
  chalk_green :: "string \<Rightarrow> string"
  getDuration :: "nat \<Rightarrow> string"
  getPreviewDirPath :: "plugin_context \<Rightarrow> string"
  emptyDir :: "string \<Rightarrow> error + unit"
  selectStack :: "pulumi_params \<Rightarrow> error + unit"
  previewStack :: "pulumi_params \<Rightarrow> bool \<Rightarrow> string \<Rightarrow> error + unit"
  cancelUpdate :: "pulumi_params \<Rightarrow> error + unit"
  refreshResources :: "pulumi_params \<Rightarrow> error + unit"
  reimportStack :: "pulumi_params \<Rightarrow> error + unit"
  deletePulumiService :: "pulumi_params \<Rightarrow> error + unit"

subsection \<open>The command specification table\<close>

text \<open>\<^verbatim>\<open>PulumiRunFn\<close> and \<^verbatim>\<open>PulumiCommandSpec\<close>.\<close>

type_synonym pulumi_run_fn = "pulumi_params \<Rightarrow> (event, unit) io"

record command_spec =
  cs_name :: string
  cs_commandDescription :: string
  cs_beforeFn :: "(plugin_context \<Rightarrow> log_entry \<Rightarrow> (event, unit) io) option"
  cs_runFn :: pulumi_run_fn

text \<open>JavaScript truthiness of \<^verbatim>\<open>spec.allowDestroy\<close>.\<close>

definition truthy :: "bool option \<Rightarrow> bool" where
  "truthy v = (v = Some True)"

definition pulumiCommandSpecs :: "externals \<Rightarrow> command_spec list" where
  "pulumiCommandSpecs ext =
     [ \<lparr> cs_name = ''preview'',
         cs_commandDescription = ''pulumi preview'',
         cs_beforeFn = Some (\<lambda>ctx log.
           let previewDirPath = getPreviewDirPath ext ctx in
           io_bind (call (LogInfo (''Clearing preview dir at '' @ previewDirPath @ ''...'')) (Inr ()))
             (\<lambda>_. call (EmptyDir previewDirPath) (emptyDir ext previewDirPath))),
         cs_runFn = (\<lambda>params.
           let previewDirPath = getPreviewDirPath ext (pp_ctx params) in
           call (PreviewStack params True previewDirPath)
                (previewStack ext params True previewDirPath)) \<rparr>,
       \<lparr> cs_name = ''cancel'',
         cs_commandDescription = ''pulumi cancel'',
         cs_beforeFn = None,
         cs_runFn = (\<lambda>params. call (CancelUpdate params) (cancelUpdate ext params)) \<rparr>,
       \<lparr> cs_name = ''refresh'',
         cs_commandDescription = ''pulumi refresh'',
         cs_beforeFn = None,
         cs_runFn = (\<lambda>params. call (RefreshResources params) (refreshResources ext params)) \<rparr>,
       \<lparr> cs_name = ''reimport'',
         cs_commandDescription = ''pulumi export | pulumi import'',
         cs_beforeFn = None,
         cs_runFn = (\<lambda>params. call (ReimportStack params) (reimportStack ext params)) \<rparr>,
       \<lparr> cs_name = ''destroy'',
         cs_commandDescription = ''pulumi destroy'',
         cs_beforeFn = None,
         cs_runFn = (\<lambda>params.
           if truthy (spec_allowDestroy (pp_module params))
           then call (DeletePulumiService params) (deletePulumiService ext params)
           else io_return ()) \<rparr> ]"

subsection \<open>The dependency graph\<close>

text \<open>
  \<^verbatim>\<open>ConfigGraph\<close> is imported from the SDK; its code is not part of this file. The
  snapshot is a value: the modules, the services, and the direct dependency edges
  between typed nodes (dependant first).
\<close>

datatype node_type = Build | Deploy | Run | Test

record dep_node =
  dn_type :: node_type
  dn_name :: string

record config_graph =
  graph_modules :: "garden_module list"
  graph_services :: "garden_service list"
  graph_dependencies :: "(dep_node \<times> dep_node) list"

text \<open>
  Modelled from the spec: \<^verbatim>\<open>ConfigGraph.getModules\<close> is missing from the sources;
  the spec gives \<^verbatim>\<open>getModules() -> sequence<Module>\<close>.
\<close>

definition getModules :: "config_graph \<Rightarrow> garden_module list" where
  "getModules g = graph_modules g"

text \<open>
  Modelled from the spec: \<^verbatim>\<open>ConfigGraph.getServices\<close> is missing from the sources;
  the spec gives \<^verbatim>\<open>getServices({names?}) -> sequence<Service>\<close>, every service when no
  names are given and the named services otherwise.
\<close>

definition getServices :: "config_graph \<Rightarrow> string list option \<Rightarrow> garden_service list" where
  "getServices g names =
     (case names of
        None \<Rightarrow> graph_services g
      | Some ns \<Rightarrow> filter (\<lambda>s. service_name s \<in> set ns) (graph_services g))"

text \<open>
  Modelled from the spec: part of \<^verbatim>\<open>ConfigGraph.getDependencies\<close>, missing from the
  sources. The "direct dependency" nodes of \<open>n\<close>, one edge away, that pass the filter.
\<close>

definition direct_dependencies :: "config_graph \<Rightarrow> (dep_node \<Rightarrow> bool) \<Rightarrow> dep_node \<Rightarrow> dep_node list" where
  "direct_dependencies g flt n =
     filter flt (map snd (filter (\<lambda>e. fst e = n) (graph_dependencies g)))"

text \<open>
  Modelled from the spec: part of \<^verbatim>\<open>ConfigGraph.getDependencies\<close>, missing from the
  sources. The nodes that a "recursive" query reaches, any number of edges away: the
  direct ones, extended as many times as the graph has edges (no path without a
  repeated edge is longer).
\<close>

fun dependency_closure :: "nat \<Rightarrow> config_graph \<Rightarrow> (dep_node \<Rightarrow> bool) \<Rightarrow> dep_node list \<Rightarrow> dep_node list" where
  "dependency_closure 0 g flt ns = ns"
| "dependency_closure (Suc k) g flt ns =
     dependency_closure k g flt (remdups (ns @ concat (map (direct_dependencies g flt) ns)))"

text \<open>The \<^verbatim>\<open>deploy\<close> entry of the relations that \<^verbatim>\<open>getDependencies\<close> returns.\<close>

record dependency_relations =
  rel_deploy :: "garden_service list"

text \<open>
  Modelled from the spec: \<^verbatim>\<open>ConfigGraph.getDependencies\<close> is missing from the sources;
  the spec gives
  \<^verbatim>\<open>getDependencies({nodeType, name, recursive: bool, filter}) -> {deploy: sequence<Service>, ...}\<close>,
  a structure "mapping a service to its direct dependency services, filterable ... by a
  recursive flag". The \<^verbatim>\<open>deploy\<close> entry holds the services of the dependency nodes of
  type \<open>Deploy\<close>.
\<close>

definition getDependencies ::
  "config_graph \<Rightarrow> node_type \<Rightarrow> string \<Rightarrow> bool \<Rightarrow> (dep_node \<Rightarrow> bool) \<Rightarrow> dependency_relations" where
  "getDependencies g nodeType name recursive flt =
     (let direct = direct_dependencies g flt \<lparr> dn_type = nodeType, dn_name = name \<rparr>;
          nodes = (if recursive
                   then dependency_closure (length (graph_dependencies g)) g flt direct
                   else direct)
      in \<lparr> rel_deploy =
             List.map_filter
               (\<lambda>d. find (\<lambda>s. service_name s = dn_name d) (graph_services g))
               (filter (\<lambda>d. dn_type d = Deploy) nodes) \<rparr>)"

subsection \<open>The task class\<close>

text \<open>
  \<^verbatim>\<open>PulumiPluginCommandTask extends PluginTask\<close>. The fields \<open>t_log\<close>, \<open>t_force\<close>,
  \<open>t_version\<close> and \<open>t_concurrencyLimit\<close> are those of the base class. The Garden
  instance, which a task only hands on to its children, is not a field of the model:
  the functions that call it take it as an argument.
\<close>

record task =
  t_log :: log_entry
  t_force :: bool
  t_version :: string
  t_concurrencyLimit :: nat
  t_graph :: config_graph
  t_service :: garden_service
  t_commandName :: string
  t_commandDescription :: string
  t_runFn :: pulumi_run_fn
  t_pulumiParams :: pulumi_params

text \<open>\<^verbatim>\<open>PulumiPluginCommandTaskParams\<close>.\<close>

record task_params =
  tp_graph :: config_graph
  tp_log :: log_entry
  tp_service :: garden_service
  tp_commandName :: string
  tp_commandDescription :: string
  tp_runFn :: pulumi_run_fn
  tp_pulumiParams :: pulumi_params

text \<open>
  The constructor: \<^verbatim>\<open>super({ garden, log, force: false, version: service.version })\<close>,
  the field assignments, and the concurrency limit read from
  \<^verbatim>\<open>pulumiParams.ctx.provider\<close>.
\<close>

definition PulumiPluginCommandTask :: "task_params \<Rightarrow> task" where
  "PulumiPluginCommandTask p =
     (let provider = ctx_provider (pp_ctx (tp_pulumiParams p)) in
      \<lparr> t_log = tp_log p,
        t_force = False,
        t_version = service_version (tp_service p),
        t_concurrencyLimit = pluginTaskConcurrencyLimit provider,
        t_graph = tp_graph p,
        t_service = tp_service p,
        t_commandName = tp_commandName p,
        t_commandDescription = tp_commandDescription p,
        t_runFn = tp_runFn p,
        t_pulumiParams = tp_pulumiParams p \<rparr>)"

definition getName :: "task \<Rightarrow> string" where
  "getName t = service_name (t_service t)"

definition getDescription :: "externals \<Rightarrow> task \<Rightarrow> string" where
  "getDescription ext t =
     ''running '' @ chalk_white ext (t_commandName t) @ '' for '' @ service_name (t_service t)"

definition resolveDependencies :: "task \<Rightarrow> task list" where
  "resolveDependencies t =
     (let pulumiServiceNames =
            map mod_name (filter (\<lambda>m. mod_type m = ''pulumi'') (getModules (t_graph t)));
          deps = getDependencies (t_graph t) Deploy (getName t) False
                   (\<lambda>depNode. dn_name depNode \<in> set pulumiServiceNames)
      in map (\<lambda>depService.
                PulumiPluginCommandTask
                  \<lparr> tp_graph = t_graph t,
                    tp_log = t_log t,
                    tp_service = depService,
                    tp_commandName = t_commandName t,
                    tp_commandDescription = t_commandDescription t,
                    tp_runFn = t_runFn t,
                    tp_pulumiParams = (t_pulumiParams t) \<lparr> pp_module := service_module depService \<rparr> \<rparr>)
             (rel_deploy deps))"

text \<open>
  \<^verbatim>\<open>process\<close>: the start line, then the \<^verbatim>\<open>try\<close> block (stack selection, then the run
  function), then \<^verbatim>\<open>setError\<close> and the rethrow of the caught error, or
  \<^verbatim>\<open>setSuccess\<close> and the empty result \<^verbatim>\<open>{}\<close>.
\<close>

definition process :: "externals \<Rightarrow> task \<Rightarrow> (event, unit) io" where
  "process ext t =
     io_bind
       (call (LogInfoStatus (getName t)
                (chalk_gray ext (''Running '' @ chalk_white ext (t_commandDescription t)))
                ''active'') (Inr ()))
       (\<lambda>_. case io_bind (call (SelectStack (t_pulumiParams t)) (selectStack ext (t_pulumiParams t)))
                     (\<lambda>_. t_runFn t (t_pulumiParams t)) of
               (Inl err, es) \<Rightarrow>
                 (Inl err,
                  es @ [LogSetError (chalk_red ext (''Failed! (took '' @ getDuration ext 1 @ '' sec)''))])
             | (Inr _, es) \<Rightarrow>
                 (Inr (),
                  es @ [LogSetSuccess (chalk_green ext (''Success (took '' @ getDuration ext 1 @ '' sec)''))]))"

subsection \<open>The command handler\<close>

text \<open>
  The arguments of \<^verbatim>\<open>ModuleConfigContext.fromModule\<close> (the Garden instance apart) and
  the template context it builds.
\<close>

record from_module_params =
  fm_resolvedProviders :: "provider list"
  fm_module :: garden_module
  fm_modules :: "garden_module list"
  fm_partialRuntimeResolution :: bool

datatype template_context = ModuleConfigContext from_module_params

text \<open>What the execution engine reports for a batch: an outcome per task name.\<close>

datatype task_result = TaskSucceeded | TaskFailed error

type_synonym graph_results = "(string \<times> task_result) list"

text \<open>The handler's return value \<^verbatim>\<open>{ result: ... }\<close>.\<close>

record handler_result =
  hr_result :: graph_results

text \<open>
  The calls of the handler, as they appear in its trace. \<open>HookEvent\<close> carries a call made
  by the before-hook; \<open>CallBeforeFn\<close> marks the invocation of the hook and \<open>NewTask\<close>
  the construction of a task, so that their order can be read off the trace.
\<close>

datatype hevent =
    GetConfigGraph
  | CallBeforeFn
  | HookEvent event
  | ResolveProviders
  | FromModule from_module_params
  | GetPluginContext provider template_context string
  | NewTask task
  | ProcessTasks "task list"

text \<open>
  The Garden instance and \<^verbatim>\<open>ModuleConfigContext.fromModule\<close>, each given by its
  outcome on the arguments it is called with.
\<close>

record garden =
  getConfigGraph :: "error + config_graph"
  resolveProviders :: "error + provider list"
  fromModule :: "from_module_params \<Rightarrow> error + template_context"
  getPluginContext :: "provider \<Rightarrow> template_context \<Rightarrow> string \<Rightarrow> error + plugin_context"
  processTasks :: "task list \<Rightarrow> error + graph_results"

text \<open>\<^verbatim>\<open>await beforeFn({ ctx, log })\<close>, its calls tagged as the hook's.\<close>

definition run_beforeFn :: "(event, unit) io \<Rightarrow> (hevent, unit) io" where
  "run_beforeFn m = (fst m, CallBeforeFn # map HookEvent (snd m))"

text \<open>
  \<^verbatim>\<open>Bluebird.map(xs, mapper)\<close> without a concurrency option: the mapper is started on
  every element and none is cancelled; the result is the list of the mappers' values
  when all of them fulfil, and a rejection as soon as one rejects. The model runs the
  mappers in list order and, when several reject, reports the rejection of the first
  of them in the list.
\<close>

fun bluebird_map :: "('a \<Rightarrow> ('e, 'b) io) \<Rightarrow> 'a list \<Rightarrow> ('e, 'b list) io" where
  "bluebird_map f [] = (Inr [], [])"
| "bluebird_map f (x # xs) =
     (case f x of (r, es) \<Rightarrow>
        (case bluebird_map f xs of (rs, es') \<Rightarrow>
           (case r of
              Inl err \<Rightarrow> Inl err
            | Inr y \<Rightarrow> (case rs of Inl err' \<Rightarrow> Inl err' | Inr ys \<Rightarrow> Inr (y # ys)),
            es @ es')))"

text \<open>The mapper of the handler: the construction of the root task of one service.\<close>

definition makeRootTask ::
  "string \<Rightarrow> string \<Rightarrow> pulumi_run_fn \<Rightarrow> garden \<Rightarrow> plugin_context \<Rightarrow> log_entry \<Rightarrow>
   config_graph \<Rightarrow> provider list \<Rightarrow> garden_module list \<Rightarrow> provider \<Rightarrow>
   garden_service \<Rightarrow> (hevent, task) io" where
  "makeRootTask name commandDescription runFn garden ctx log graph allProviders allModules provider service =
     (let fmp = \<lparr> fm_resolvedProviders = allProviders,
                  fm_module = service_module service,
                  fm_modules = allModules,
                  fm_partialRuntimeResolution = False \<rparr> in
      io_bind (call (FromModule fmp) (fromModule garden fmp)) (\<lambda>templateContext.
      io_bind (call (GetPluginContext provider templateContext (ctx_events ctx))
                    (getPluginContext garden provider templateContext (ctx_events ctx))) (\<lambda>ctxForModule.
      let pulumiParams = \<lparr> pp_ctx = ctxForModule,
                           pp_provider = provider,
                           pp_log = log,
                           pp_module = service_module service,
                           pp_service = service \<rparr>;
          task = PulumiPluginCommandTask
                   \<lparr> tp_graph = graph,
                     tp_log = log,
                     tp_service = service,
                     tp_commandName = name,
                     tp_commandDescription = commandDescription,
                     tp_runFn = runFn,
                     tp_pulumiParams = pulumiParams \<rparr>
      in call (NewTask task) (Inr task))))"

text \<open>
  \<^verbatim>\<open>handler({ garden, ctx, args, log })\<close> of the command made from
  \<^verbatim>\<open>{ name, commandDescription, beforeFn, runFn }\<close>.
\<close>

definition handler ::
  "string \<Rightarrow> string \<Rightarrow> (plugin_context \<Rightarrow> log_entry \<Rightarrow> (event, unit) io) option \<Rightarrow> pulumi_run_fn \<Rightarrow>
   garden \<Rightarrow> plugin_context \<Rightarrow> string list \<Rightarrow> log_entry \<Rightarrow> (hevent, handler_result) io" where
  "handler name commandDescription beforeFn runFn garden ctx args log =
     (let serviceNames = (if length args = 0 then None else Some args) in
      io_bind (call GetConfigGraph (getConfigGraph garden)) (\<lambda>graph.
      io_bind (case beforeFn of
                 Some f \<Rightarrow> run_beforeFn (f ctx log)
               | None \<Rightarrow> io_return ()) (\<lambda>_.
      io_bind (call ResolveProviders (resolveProviders garden)) (\<lambda>allProviders.
      let allModules = getModules graph;
          provider = ctx_provider ctx;
          services = filter (\<lambda>s. mod_type (service_module s) = ''pulumi'')
                       (getServices graph serviceNames)
      in
      io_bind (bluebird_map
                 (makeRootTask name commandDescription runFn garden ctx log
                    graph allProviders allModules provider)
                 services) (\<lambda>tasks.
      io_bind (call (ProcessTasks tasks) (processTasks garden tasks)) (\<lambda>_.
      io_return \<lparr> hr_result = [] \<rparr>))))))"

text \<open>
  \<^verbatim>\<open>makePulumiCommand\<close> and \<^verbatim>\<open>getPulumiCommands\<close>; the display strings
  \<^verbatim>\<open>description\<close> and \<^verbatim>\<open>title\<close> of a command are left out.
\<close>

record plugin_command =
  pc_name :: string
  pc_resolveModules :: bool
  pc_handler :: "garden \<Rightarrow> plugin_context \<Rightarrow> string list \<Rightarrow> log_entry \<Rightarrow> (hevent, handler_result) io"

definition makePulumiCommand :: "command_spec \<Rightarrow> plugin_command" where
  "makePulumiCommand spec =
     \<lparr> pc_name = cs_name spec,
       pc_resolveModules = False,
       pc_handler = handler (cs_name spec) (cs_commandDescription spec) (cs_beforeFn spec) (cs_runFn spec) \<rparr>"

definition getPulumiCommands :: "externals \<Rightarrow> plugin_command list" where
  "getPulumiCommands ext = map makePulumiCommand (pulumiCommandSpecs ext)"

text \<open>Reading a handler trace: the tasks constructed, and the batches submitted.\<close>

fun created :: "hevent list \<Rightarrow> task list" where
  "created [] = []"
| "created (NewTask t # es) = t # created es"
| "created (_ # es) = created es"

fun submitted :: "hevent list \<Rightarrow> task list list" where
  "submitted [] = []"
| "submitted (ProcessTasks ts # es) = ts # submitted es"
| "submitted (_ # es) = submitted es"

subsection \<open>A small project\<close>

text \<open>
  Three pulumi services \<open>A\<close>, \<open>B\<close>, \<open>C\<close> and a container service \<open>Z\<close>; \<open>A\<close> depends
  on \<open>B\<close> and on \<open>Z\<close>, and \<open>B\<close> depends on \<open>C\<close>. The theorems below are instantiated on it.
\<close>

definition ex_module :: "string \<Rightarrow> string \<Rightarrow> garden_module" where
  "ex_module n ty = \<lparr> mod_name = n, mod_type = ty, spec_allowDestroy = Some True \<rparr>"

definition ex_service :: "string \<Rightarrow> string \<Rightarrow> garden_service" where
  "ex_service n ty =
     \<lparr> service_name = n, service_module = ex_module n ty, service_version = ''v-'' @ n \<rparr>"

definition ex_node :: "string \<Rightarrow> dep_node" where
  "ex_node n = \<lparr> dn_type = Deploy, dn_name = n \<rparr>"

definition ex_graph :: config_graph where
  "ex_graph =
     \<lparr> graph_modules = [ex_module ''A'' ''pulumi'', ex_module ''B'' ''pulumi'',
                        ex_module ''C'' ''pulumi'', ex_module ''Z'' ''container''],
       graph_services = [ex_service ''A'' ''pulumi'', ex_service ''B'' ''pulumi'',
                         ex_service ''C'' ''pulumi'', ex_service ''Z'' ''container''],
       graph_dependencies = [(ex_node ''A'', ex_node ''B''), (ex_node ''B'', ex_node ''C''),
                             (ex_node ''A'', ex_node ''Z'')] \<rparr>"

definition ex_provider :: provider where
  "ex_provider = \<lparr> provider_name = ''pulumi'', pluginTaskConcurrencyLimit = 5 \<rparr>"

definition ex_ctx :: plugin_context where
  "ex_ctx = \<lparr> ctx_provider = ex_provider, ctx_events = ''events'' \<rparr>"

text \<open>
  Helpers that all succeed, except that no stack can be selected for module \<open>C\<close> and
  that the refresh of module \<open>B\<close> fails.
\<close>

definition ex_ext :: externals where
  "ex_ext =
     \<lparr> chalk_gray = (\<lambda>s. s), chalk_white = (\<lambda>s. s), chalk_red = (\<lambda>s. s), chalk_green = (\<lambda>s. s),
       getDuration = (\<lambda>_. ''1.5''),
       getPreviewDirPath = (\<lambda>_. ''/preview''),
       emptyDir = (\<lambda>_. Inr ()),
       selectStack = (\<lambda>p. if mod_name (pp_module p) = ''C''
                            then Inl (Error ''no stack'') else Inr ()),
       previewStack = (\<lambda>_ _ _. Inr ()),
       cancelUpdate = (\<lambda>_. Inr ()),
       refreshResources = (\<lambda>p. if mod_name (pp_module p) = ''B''
                                 then Inl (Error ''refresh failed'') else Inr ()),
       reimportStack = (\<lambda>_. Inr ()),
       deletePulumiService = (\<lambda>_. Inr ()) \<rparr>"

text \<open>A Garden instance on which every call succeeds and every submitted task succeeds.\<close>

definition ex_garden :: garden where
  "ex_garden =
     \<lparr> getConfigGraph = Inr ex_graph,
       resolveProviders = Inr [ex_provider],
       fromModule = (\<lambda>p. Inr (ModuleConfigContext p)),
       getPluginContext = (\<lambda>p tc ev. Inr \<lparr> ctx_provider = p, ctx_events = ev \<rparr>),
       processTasks = (\<lambda>ts. Inr (map (\<lambda>t. (getName t, TaskSucceeded)) ts)) \<rparr>"

text \<open>The same instance, except that no plugin context can be built for module \<open>A\<close>.\<close>

definition ex_garden_no_ctx :: garden where
  "ex_garden_no_ctx =
     ex_garden \<lparr> getPluginContext := (\<lambda>p tc ev.
       case tc of ModuleConfigContext fmp \<Rightarrow>
         if mod_name (fm_module fmp) = ''A''
         then Inl (Error ''no context for A'')
         else Inr \<lparr> ctx_provider = p, ctx_events = ev \<rparr>) \<rparr>"

text \<open>The \<^verbatim>\<open>refresh\<close> command (no before-hook) and the \<^verbatim>\<open>preview\<close> command (with one).\<close>

definition ex_refresh :: command_spec where
  "ex_refresh = pulumiCommandSpecs ex_ext ! 2"

definition ex_preview :: command_spec where
  "ex_preview = pulumiCommandSpecs ex_ext ! 0"

text \<open>The \<^verbatim>\<open>preview\<close> command when the preview directory cannot be cleared.\<close>

definition ex_ext_no_dir :: externals where
  "ex_ext_no_dir = ex_ext \<lparr> emptyDir := (\<lambda>_. Inl (Error ''EACCES'')) \<rparr>"

definition ex_preview_no_dir :: command_spec where
  "ex_preview_no_dir = pulumiCommandSpecs ex_ext_no_dir ! 0"

text \<open>The root task of service \<open>n\<close> for the \<^verbatim>\<open>refresh\<close> command, as the handler builds it.\<close>

definition ex_task :: "string \<Rightarrow> task" where
  "ex_task n =
     PulumiPluginCommandTask
       \<lparr> tp_graph = ex_graph,
         tp_log = ''log'',
         tp_service = ex_service n ''pulumi'',
         tp_commandName = ''refresh'',
         tp_commandDescription = ''pulumi refresh'',
         tp_runFn = cs_runFn ex_refresh,
         tp_pulumiParams = \<lparr> pp_ctx = ex_ctx, pp_provider = ex_provider, pp_log = ''log'',
                             pp_module = ex_module n ''pulumi'',
                             pp_service = ex_service n ''pulumi'' \<rparr> \<rparr>"



text \<open>
  An invocation of the command made from a specification, on the context and the logger
  of the project.
\<close>

definition ex_run :: "command_spec \<Rightarrow> garden \<Rightarrow> string list \<Rightarrow> (hevent, handler_result) io" where
  "ex_run spec g args = pc_handler (makePulumiCommand spec) g ex_ctx args ''log''"

subsection \<open>Notions used in the statements\<close>




text \<open>
  The attributes that every task is said to be constructed with: no force flag, the
  version of its target service, and the concurrency limit of the provider of its own
  plugin context.
\<close>

definition constructed_attributes :: "task \<Rightarrow> bool" where
  "constructed_attributes t =
     (t_force t = False
      \<and> t_version t = service_version (t_service t)
      \<and> t_concurrencyLimit t =
          pluginTaskConcurrencyLimit (ctx_provider (pp_ctx (t_pulumiParams t))))"

text \<open>
  The target services in the words of the specification: with no names, every service
  of module type \<open>pulumi\<close>; with names, the named services of module type \<open>pulumi\<close>.
\<close>

definition target_services :: "config_graph \<Rightarrow> string list \<Rightarrow> garden_service list" where
  "target_services g args =
     filter (\<lambda>s. mod_type (service_module s) = ''pulumi'')
       (if args = [] then graph_services g
        else filter (\<lambda>s. service_name s \<in> set args) (graph_services g))"

text \<open>
  The context resolution of one service, as the handler performs it: the template
  context of the module of the service, then the plugin context made from it.
\<close>

definition contextResolution ::
  "garden \<Rightarrow> plugin_context \<Rightarrow> provider list \<Rightarrow> config_graph \<Rightarrow> garden_service \<Rightarrow> error + plugin_context" where
  "contextResolution garden ctx allProviders graph service =
     (case fromModule garden
             \<lparr> fm_resolvedProviders = allProviders,
               fm_module = service_module service,
               fm_modules = getModules graph,
               fm_partialRuntimeResolution = False \<rparr> of
        Inl err \<Rightarrow> Inl err
      | Inr templateContext \<Rightarrow>
          getPluginContext garden (ctx_provider ctx) templateContext (ctx_events ctx))"

text \<open>The outcome of the before-hook of a command, when it has one.\<close>

definition beforeFn_outcome ::
  "(plugin_context \<Rightarrow> log_entry \<Rightarrow> (event, unit) io) option \<Rightarrow> plugin_context \<Rightarrow> log_entry \<Rightarrow> error + unit" where
  "beforeFn_outcome beforeFn ctx log =
     (case beforeFn of None \<Rightarrow> Inr () | Some f \<Rightarrow> fst (f ctx log))"

text \<open>The before-hook step of the handler: the hook when there is one, nothing otherwise.\<close>

definition hook_io ::
  "(plugin_context \<Rightarrow> log_entry \<Rightarrow> (event, unit) io) option \<Rightarrow> plugin_context \<Rightarrow> log_entry \<Rightarrow> (hevent, unit) io" where
  "hook_io b ctx log = (case b of Some f \<Rightarrow> run_beforeFn (f ctx log) | None \<Rightarrow> io_return ())"

subsection \<open>Tasks as objects in a store\<close>

text \<open>
  A second embedding of \<^verbatim>\<open>resolveDependencies\<close>, in which a task is an object that
  the method reaches through \<^verbatim>\<open>this\<close> and could change. The store holds the objects
  that the class reads through a reference: the graph snapshot, the parameter objects
  and the task objects. A method takes the store and returns it; \<^verbatim>\<open>new\<close> and an
  object literal allocate at the next free address. Reading a field of a missing
  object is a \<^verbatim>\<open>TypeError\<close>.
\<close>

type_synonym addr = nat

text \<open>
  A task object: the fields of \<open>task\<close>, with \<^verbatim>\<open>this.graph\<close> and
  \<^verbatim>\<open>this.pulumiParams\<close> as references.
\<close>

record task_obj =
  o_log :: log_entry
  o_force :: bool
  o_version :: string
  o_concurrencyLimit :: nat
  o_graph :: addr
  o_service :: garden_service
  o_commandName :: string
  o_commandDescription :: string
  o_runFn :: pulumi_run_fn
  o_pulumiParams :: addr

record object_store =
  st_graphs :: "addr \<Rightarrow> config_graph option"
  st_params :: "addr \<Rightarrow> pulumi_params option"
  st_tasks :: "addr \<Rightarrow> task_obj option"
  st_next :: addr

text \<open>The object literal \<^verbatim>\<open>{ ...this.pulumiParams, module: depService.module }\<close>.\<close>

definition new_params :: "pulumi_params \<Rightarrow> object_store \<Rightarrow> addr \<times> object_store" where
  "new_params pp s =
     (st_next s,
      s \<lparr> st_params := (st_params s)(st_next s \<mapsto> pp), st_next := Suc (st_next s) \<rparr>)"

text \<open>
  \<^verbatim>\<open>new PulumiPluginCommandTask({ ... })\<close> on the store: the constructor reads
  \<^verbatim>\<open>pulumiParams.ctx.provider\<close> through the reference it is given.
\<close>

definition new_PulumiPluginCommandTask ::
  "addr \<Rightarrow> log_entry \<Rightarrow> garden_service \<Rightarrow> string \<Rightarrow> string \<Rightarrow> pulumi_run_fn \<Rightarrow> addr \<Rightarrow>
   object_store \<Rightarrow> (error + addr) \<times> object_store" where
  "new_PulumiPluginCommandTask graph log service commandName commandDescription runFn pulumiParams s =
     (case st_params s pulumiParams of
        None \<Rightarrow> (Inl (Error ''TypeError''), s)
      | Some pp \<Rightarrow>
          (let provider = ctx_provider (pp_ctx pp) in
           (Inr (st_next s),
            s \<lparr> st_tasks := (st_tasks s)(st_next s \<mapsto>
                   \<lparr> o_log = log,
                     o_force = False,
                     o_version = service_version service,
                     o_concurrencyLimit = pluginTaskConcurrencyLimit provider,
                     o_graph = graph,
                     o_service = service,
                     o_commandName = commandName,
                     o_commandDescription = commandDescription,
                     o_runFn = runFn,
                     o_pulumiParams = pulumiParams \<rparr>),
                st_next := Suc (st_next s) \<rparr>)))"

text \<open>
  The function that \<^verbatim>\<open>resolveDependencies\<close> maps over \<^verbatim>\<open>deps.deploy\<close>: it reads
  the fields of \<^verbatim>\<open>this\<close>, allocates the parameters of the child and constructs the
  child.
\<close>

definition new_child :: "addr \<Rightarrow> garden_service \<Rightarrow> object_store \<Rightarrow> (error + addr) \<times> object_store" where
  "new_child this depService s =
     (case st_tasks s this of
        None \<Rightarrow> (Inl (Error ''TypeError''), s)
      | Some t \<Rightarrow>
          (case st_params s (o_pulumiParams t) of
             None \<Rightarrow> (Inl (Error ''TypeError''), s)
           | Some pp \<Rightarrow>
               (case new_params (pp \<lparr> pp_module := service_module depService \<rparr>) s of
                  (pulumiParams, s') \<Rightarrow>
                    new_PulumiPluginCommandTask (o_graph t) (o_log t) depService
                      (o_commandName t) (o_commandDescription t) (o_runFn t) pulumiParams s')))"

text \<open>\<^verbatim>\<open>Array.prototype.map\<close> with a function that works on the store and may throw.\<close>

fun map_store ::
  "('a \<Rightarrow> object_store \<Rightarrow> (error + 'b) \<times> object_store) \<Rightarrow> 'a list \<Rightarrow> object_store \<Rightarrow>
   (error + 'b list) \<times> object_store" where
  "map_store f [] s = (Inr [], s)"
| "map_store f (x # xs) s =
     (case f x s of
        (Inl err, s') \<Rightarrow> (Inl err, s')
      | (Inr y, s') \<Rightarrow>
          (case map_store f xs s' of
             (Inl err, s'') \<Rightarrow> (Inl err, s'')
           | (Inr ys, s'') \<Rightarrow> (Inr (y # ys), s'')))"

text \<open>
  \<^verbatim>\<open>resolveDependencies\<close> on the store: the method of the task object at \<open>this\<close>.
  The two graph queries are the read queries modelled above, on the snapshot that
  \<^verbatim>\<open>this.graph\<close> refers to.
\<close>

definition resolveDependencies_st :: "addr \<Rightarrow> object_store \<Rightarrow> (error + addr list) \<times> object_store" where
  "resolveDependencies_st this s =
     (case st_tasks s this of
        None \<Rightarrow> (Inl (Error ''TypeError''), s)
      | Some t \<Rightarrow>
          (case st_graphs s (o_graph t) of
             None \<Rightarrow> (Inl (Error ''TypeError''), s)
           | Some graph \<Rightarrow>
               (let pulumiServiceNames =
                      map mod_name (filter (\<lambda>m. mod_type m = ''pulumi'') (getModules graph));
                    deps = getDependencies graph Deploy (service_name (o_service t)) False
                             (\<lambda>depNode. dn_name depNode \<in> set pulumiServiceNames)
                in map_store (new_child this) (rel_deploy deps) s)))"

text \<open>
  The task that an address stands for: the object with its references followed. Two
  task objects are equal in target service, command name, description, run function
  and parameters when they stand for the same task.
\<close>

definition task_value :: "object_store \<Rightarrow> addr \<Rightarrow> task option" where
  "task_value s a =
     (case st_tasks s a of
        None \<Rightarrow> None
      | Some t \<Rightarrow>
          (case st_graphs s (o_graph t) of
             None \<Rightarrow> None
           | Some graph \<Rightarrow>
               (case st_params s (o_pulumiParams t) of
                  None \<Rightarrow> None
                | Some pp \<Rightarrow>
                    Some \<lparr> t_log = o_log t,
                           t_force = o_force t,
                           t_version = o_version t,
                           t_concurrencyLimit = o_concurrencyLimit t,
                           t_graph = graph,
                           t_service = o_service t,
                           t_commandName = o_commandName t,
                           t_commandDescription = o_commandDescription t,
                           t_runFn = o_runFn t,
                           t_pulumiParams = pp \<rparr>)))"

text \<open>The allocator's invariant: nothing is stored at or above the next free address.\<close>

definition store_ok :: "object_store \<Rightarrow> bool" where
  "store_ok s = (\<forall>a. st_next s \<le> a \<longrightarrow> st_params s a = None \<and> st_tasks s a = None)"

text \<open>
  \<open>unchanged s s'\<close>: every object of \<open>s\<close> is in \<open>s'\<close> as it was, and the graph snapshots
  are the same. A method that takes \<open>s\<close> to \<open>s'\<close> has then written to no object that
  existed when it was called.
\<close>

definition unchanged :: "object_store \<Rightarrow> object_store \<Rightarrow> bool" where
  "unchanged s s' =
     (st_graphs s' = st_graphs s
      \<and> (\<forall>a t. st_tasks s a = Some t \<longrightarrow> st_tasks s' a = Some t)
      \<and> (\<forall>a pp. st_params s a = Some pp \<longrightarrow> st_params s' a = Some pp))"

text \<open>
  A store for the small project: the graph at address 0, the parameters of the task of
  \<open>A\<close> at address 1, the task of \<open>A\<close> at address 2.
\<close>

definition ex_store :: object_store where
  "ex_store =
     \<lparr> st_graphs = Map.empty(0 \<mapsto> ex_graph),
       st_params = Map.empty(1 \<mapsto> t_pulumiParams (ex_task ''A'')),
       st_tasks = Map.empty(2 \<mapsto>
         \<lparr> o_log = t_log (ex_task ''A''),
           o_force = t_force (ex_task ''A''),
           o_version = t_version (ex_task ''A''),
           o_concurrencyLimit = t_concurrencyLimit (ex_task ''A''),
           o_graph = 0,
           o_service = t_service (ex_task ''A''),
           o_commandName = t_commandName (ex_task ''A''),
           o_commandDescription = t_commandDescription (ex_task ''A''),
           o_runFn = t_runFn (ex_task ''A''),
           o_pulumiParams = 1 \<rparr>),
       st_next = 3 \<rparr>"

section \<open>Properties\<close>

subsection \<open>Auxiliary facts\<close>

lemma io_bind_Inl [simp]: "io_bind (Inl err, es) f = (Inl err, es)"
  by (simp add: io_bind_def)

lemma io_bind_Inr [simp]: "io_bind (Inr x, es) f = (fst (f x), es @ snd (f x))"
  by (simp add: io_bind_def split: prod.splits)

lemma io_bind_call:
  "io_bind (call ev r) f =
     (case r of Inl err \<Rightarrow> (Inl err, [ev]) | Inr x \<Rightarrow> (fst (f x), ev # snd (f x)))"
  by (simp add: call_def split: sum.splits)





text \<open>Facts about handler traces.\<close>

lemma created_append [simp]: "created (xs @ ys) = created xs @ created ys"
  by (induction xs rule: created.induct) simp_all

lemma submitted_append [simp]: "submitted (xs @ ys) = submitted xs @ submitted ys"
  by (induction xs rule: submitted.induct) simp_all

lemma created_HookEvents [simp]: "created (map HookEvent es) = []"
  by (induction es) simp_all

lemma submitted_HookEvents [simp]: "submitted (map HookEvent es) = []"
  by (induction es) simp_all

lemma io_bind_pair:
  "io_bind (r, es) f = (case r of Inl err \<Rightarrow> (Inl err, es) | Inr x \<Rightarrow> (fst (f x), es @ snd (f x)))"
  by (simp split: sum.splits)

lemmas makeRootTask_unfold = makeRootTask_def io_bind_pair call_def Let_def

text \<open>The mapper of the handler, in terms of the context resolution of the service.\<close>

lemma makeRootTask_fst:
  "fst (makeRootTask n d r G ctx log g ps (getModules g) (ctx_provider ctx) s) =
     map_sum id
       (\<lambda>c. PulumiPluginCommandTask
               \<lparr> tp_graph = g, tp_log = log, tp_service = s, tp_commandName = n,
                 tp_commandDescription = d, tp_runFn = r,
                 tp_pulumiParams = \<lparr> pp_ctx = c, pp_provider = ctx_provider ctx, pp_log = log,
                                     pp_module = service_module s, pp_service = s \<rparr> \<rparr>)
       (contextResolution G ctx ps g s)"
  by (simp add: makeRootTask_unfold contextResolution_def split: sum.splits)

lemma makeRootTask_created:
  "created (snd (makeRootTask n d r G ctx log g ps ms p s)) =
     (case fst (makeRootTask n d r G ctx log g ps ms p s) of Inl _ \<Rightarrow> [] | Inr t \<Rightarrow> [t])"
  by (simp add: makeRootTask_unfold split: sum.splits)

lemma makeRootTask_submitted:
  "submitted (snd (makeRootTask n d r G ctx log g ps ms p s)) = []"
  by (simp add: makeRootTask_unfold split: sum.splits)

lemma makeRootTask_no_graph_or_hook:
  "GetConfigGraph \<notin> set (snd (makeRootTask n d r G ctx log g ps ms p s))
   \<and> CallBeforeFn \<notin> set (snd (makeRootTask n d r G ctx log g ps ms p s))"
  by (simp add: makeRootTask_unfold split: sum.splits)

lemma makeRootTask_task:
  "fst (makeRootTask n d r G ctx log g ps ms p s) = Inr t \<Longrightarrow> t_service t = s"
  by (auto simp: makeRootTask_unfold PulumiPluginCommandTask_def split: sum.splits)

lemma makeRootTask_attributes:
  "fst (makeRootTask n d r G ctx log g ps ms p s) = Inr t \<Longrightarrow> constructed_attributes t"
  by (auto simp: makeRootTask_unfold constructed_attributes_def
        PulumiPluginCommandTask_def split: sum.splits)

text \<open>Facts about \<open>bluebird_map\<close>.\<close>

lemma bluebird_map_Cons:
  "bluebird_map f (x # xs) =
     (case fst (f x) of
        Inl err \<Rightarrow> Inl err
      | Inr y \<Rightarrow> (case fst (bluebird_map f xs) of Inl err' \<Rightarrow> Inl err' | Inr ys \<Rightarrow> Inr (y # ys)),
      snd (f x) @ snd (bluebird_map f xs))"
  by (cases "f x"; cases "bluebird_map f xs") (simp split: sum.splits)

lemma bluebird_map_snd: "snd (bluebird_map f xs) = concat (map (\<lambda>x. snd (f x)) xs)"
  by (induction xs) (simp_all add: bluebird_map_Cons del: bluebird_map.simps(2))

lemma bluebird_map_Inr:
  "fst (bluebird_map f xs) = Inr ys \<Longrightarrow> map (\<lambda>x. fst (f x)) xs = map Inr ys"
  by (induction xs arbitrary: ys) (auto simp: bluebird_map_Cons simp del: bluebird_map.simps(2) split: sum.splits)

lemma bluebird_map_Inl:
  "fst (bluebird_map f xs) = Inl err \<Longrightarrow> \<exists>x \<in> set xs. fst (f x) = Inl err"
  by (induction xs) (auto simp: bluebird_map_Cons simp del: bluebird_map.simps(2) split: sum.splits)

lemma bluebird_map_rejects:
  "x \<in> set xs \<Longrightarrow> fst (f x) = Inl err \<Longrightarrow> \<exists>err'. fst (bluebird_map f xs) = Inl err'"
  by (induction xs) (auto simp: bluebird_map_Cons simp del: bluebird_map.simps(2) split: sum.splits)

lemma bluebird_map_fulfils:
  "\<forall>x \<in> set xs. \<exists>y. fst (f x) = Inr y \<Longrightarrow> \<exists>ys. fst (bluebird_map f xs) = Inr ys"
  by (induction xs) (auto simp: bluebird_map_Cons simp del: bluebird_map.simps(2) split: sum.splits)

lemma io_bind_alt:
  "io_bind m f = (case fst m of Inl err \<Rightarrow> (Inl err, snd m) | Inr x \<Rightarrow> (fst (f x), snd m @ snd (f x)))"
  by (cases m) (simp split: sum.splits)

lemma handler_targets:
  "filter (\<lambda>s. mod_type (service_module s) = ''pulumi'')
     (getServices g (if length args = 0 then None else Some args)) = target_services g args"
  by (simp add: getServices_def target_services_def)

lemma handler_unfold:
  "handler n d b r G ctx args log =
     (case getConfigGraph G of
        Inl err \<Rightarrow> (Inl err, [GetConfigGraph])
      | Inr g \<Rightarrow>
         (case fst (hook_io b ctx log) of
            Inl err \<Rightarrow> (Inl err, GetConfigGraph # snd (hook_io b ctx log))
          | Inr _ \<Rightarrow>
             (case resolveProviders G of
                Inl err \<Rightarrow> (Inl err, GetConfigGraph # snd (hook_io b ctx log) @ [ResolveProviders])
              | Inr ps \<Rightarrow>
                 (case fst (bluebird_map (makeRootTask n d r G ctx log g ps (getModules g) (ctx_provider ctx))
                              (target_services g args)) of
                    Inl err \<Rightarrow>
                      (Inl err,
                       GetConfigGraph # snd (hook_io b ctx log) @ ResolveProviders #
                         snd (bluebird_map (makeRootTask n d r G ctx log g ps (getModules g) (ctx_provider ctx))
                                (target_services g args)))
                  | Inr ts \<Rightarrow>
                      (map_sum id (\<lambda>_. \<lparr> hr_result = [] \<rparr>) (processTasks G ts),
                       GetConfigGraph # snd (hook_io b ctx log) @ ResolveProviders #
                         snd (bluebird_map (makeRootTask n d r G ctx log g ps (getModules g) (ctx_provider ctx))
                                (target_services g args)) @ [ProcessTasks ts])))))"
  unfolding handler_def Let_def handler_targets hook_io_def [symmetric]
  by (simp add: io_bind_alt call_def io_return_def split: sum.splits)

lemma created_concat: "created (concat xss) = concat (map created xss)"
  by (induction xss) simp_all

lemma submitted_concat: "submitted (concat xss) = concat (map submitted xss)"
  by (induction xss) simp_all

lemma hook_io_fst: "fst (hook_io b ctx log) = beforeFn_outcome b ctx log"
  by (simp add: hook_io_def beforeFn_outcome_def run_beforeFn_def io_return_def split: option.splits)

lemma hook_io_snd:
  "snd (hook_io b ctx log) =
     (case b of None \<Rightarrow> [] | Some f \<Rightarrow> CallBeforeFn # map HookEvent (snd (f ctx log)))"
  by (simp add: hook_io_def run_beforeFn_def io_return_def split: option.splits)

lemma hook_io_created [simp]: "created (snd (hook_io b ctx log)) = []"
  by (simp add: hook_io_snd split: option.splits)

lemma hook_io_submitted [simp]: "submitted (snd (hook_io b ctx log)) = []"
  by (simp add: hook_io_snd split: option.splits)

lemma roots_submitted [simp]:
  "submitted (snd (bluebird_map (makeRootTask n d r G ctx log g ps ms p) xs)) = []"
  by (simp add: bluebird_map_snd submitted_concat makeRootTask_submitted)

lemma roots_created:
  "fst (bluebird_map (makeRootTask n d r G ctx log g ps ms p) xs) = Inr ts \<Longrightarrow>
     created (snd (bluebird_map (makeRootTask n d r G ctx log g ps ms p) xs)) = ts
   \<and> map t_service ts = xs"
proof (induction xs arbitrary: ts)
  case Nil
  then show ?case by simp
next
  case (Cons x xs)
  from Cons.prems obtain t ts' where
    t: "fst (makeRootTask n d r G ctx log g ps ms p x) = Inr t" and
    ts': "fst (bluebird_map (makeRootTask n d r G ctx log g ps ms p) xs) = Inr ts'" and
    ts: "ts = t # ts'"
    by (auto simp: bluebird_map_Cons simp del: bluebird_map.simps(2) split: sum.splits)
  from Cons.IH[OF ts'] makeRootTask_task[OF t] t ts show ?case
    by (simp add: bluebird_map_Cons makeRootTask_created del: bluebird_map.simps(2))
qed

lemma roots_attributes:
  "t \<in> set (created (snd (bluebird_map (makeRootTask n d r G ctx log g ps ms p) xs))) \<Longrightarrow>
     constructed_attributes t"
proof (induction xs)
  case Nil
  then show ?case by simp
next
  case (Cons x xs)
  then show ?case
    using makeRootTask_attributes[of n d r G ctx log g ps ms p x]
    by (auto simp: bluebird_map_Cons makeRootTask_created simp del: bluebird_map.simps(2) split: sum.splits)
qed

lemma roots_no_graph_or_hook:
  "GetConfigGraph \<notin> set (snd (bluebird_map (makeRootTask n d r G ctx log g ps ms p) xs))
   \<and> CallBeforeFn \<notin> set (snd (bluebird_map (makeRootTask n d r G ctx log g ps ms p) xs))"
  using makeRootTask_no_graph_or_hook[of n d r G ctx log g ps ms p]
  by (auto simp: bluebird_map_snd)

lemma map_sum_const_Inr: "map_sum id (\<lambda>_. c) x = Inr res \<Longrightarrow> res = c"
  by (cases x) auto

lemma map_sum_id_Inl: "map_sum id f x = Inl err \<Longrightarrow> x = Inl err"
  by (cases x) auto

text \<open>Facts about the small project.\<close>

lemma ex_run_handler:
  "ex_run spec g args =
     handler (cs_name spec) (cs_commandDescription spec) (cs_beforeFn spec) (cs_runFn spec) g ex_ctx args ''log''"
  by (simp add: ex_run_def makePulumiCommand_def)

lemma ex_garden_contextResolution:
  "contextResolution ex_garden ctx ps g s = Inr \<lparr> ctx_provider = ctx_provider ctx, ctx_events = ctx_events ctx \<rparr>"
  by (simp add: contextResolution_def ex_garden_def)

lemma ex_refresh_no_hook: "cs_beforeFn ex_refresh = None"
  by (simp add: ex_refresh_def pulumiCommandSpecs_def)

subsection \<open>The run function of \<^verbatim>\<open>destroy\<close>\<close>

text \<open>
  C10. The run function of the \<^verbatim>\<open>destroy\<close> entry of the table deletes nothing when
  \<^verbatim>\<open>module.spec.allowDestroy\<close> is falsy: it makes no call at all (so
  \<^verbatim>\<open>deletePulumiService\<close> is never called) and completes successfully. When the
  flag is set it makes exactly one call, \<^verbatim>\<open>deletePulumiService(params)\<close>, and its
  outcome is the outcome of that call.
\<close>

theorem destroy_runFn_allowDestroy:
  "d \<in> set (pulumiCommandSpecs ext) \<Longrightarrow> cs_name d = ''destroy'' \<Longrightarrow>
     (\<not> truthy (spec_allowDestroy (pp_module params)) \<longrightarrow> cs_runFn d params = (Inr (), []))
   \<and> (truthy (spec_allowDestroy (pp_module params)) \<longrightarrow>
        cs_runFn d params = (deletePulumiService ext params, [DeletePulumiService params]))"
  by (auto simp: pulumiCommandSpecs_def io_return_def call_def)

theorem destroy_runFn_allowDestroy_witness:
  "pulumiCommandSpecs ex_ext ! 4 \<in> set (pulumiCommandSpecs ex_ext)
   \<and> cs_name (pulumiCommandSpecs ex_ext ! 4) = ''destroy''
   \<and> \<not> truthy (spec_allowDestroy (pp_module
         ((t_pulumiParams (ex_task ''A'')) \<lparr> pp_module := (ex_module ''A'' ''pulumi'') \<lparr> spec_allowDestroy := None \<rparr> \<rparr>)))
   \<and> cs_runFn (pulumiCommandSpecs ex_ext ! 4)
        ((t_pulumiParams (ex_task ''A'')) \<lparr> pp_module := (ex_module ''A'' ''pulumi'') \<lparr> spec_allowDestroy := None \<rparr> \<rparr>)
       = (Inr (), [])
   \<and> truthy (spec_allowDestroy (pp_module (t_pulumiParams (ex_task ''A''))))
   \<and> cs_runFn (pulumiCommandSpecs ex_ext ! 4) (t_pulumiParams (ex_task ''A''))
       = (Inr (), [DeletePulumiService (t_pulumiParams (ex_task ''A''))])"
proof -
  have mem: "pulumiCommandSpecs ex_ext ! 4 \<in> set (pulumiCommandSpecs ex_ext)"
    by (simp add: pulumiCommandSpecs_def)
  have nm: "cs_name (pulumiCommandSpecs ex_ext ! 4) = ''destroy''"
    by (simp add: pulumiCommandSpecs_def)
  have falsy: "\<not> truthy (spec_allowDestroy (pp_module
         ((t_pulumiParams (ex_task ''A'')) \<lparr> pp_module := (ex_module ''A'' ''pulumi'') \<lparr> spec_allowDestroy := None \<rparr> \<rparr>)))"
    by (simp add: truthy_def)
  have set: "truthy (spec_allowDestroy (pp_module (t_pulumiParams (ex_task ''A''))))"
    by (simp add: truthy_def ex_task_def ex_module_def PulumiPluginCommandTask_def)
  have del: "deletePulumiService ex_ext (t_pulumiParams (ex_task ''A'')) = Inr ()"
    by (simp add: ex_ext_def)
  show ?thesis
    using mem nm falsy set del
      destroy_runFn_allowDestroy [OF mem nm,
        of "(t_pulumiParams (ex_task ''A'')) \<lparr> pp_module := (ex_module ''A'' ''pulumi'') \<lparr> spec_allowDestroy := None \<rparr> \<rparr>"]
      destroy_runFn_allowDestroy [OF mem nm, of "t_pulumiParams (ex_task ''A'')"]
    by simp
qed

subsection \<open>The life cycle of a task\<close>

text \<open>
  C6, as amended. \<^verbatim>\<open>process\<close> first emits the start line, whose section is the name
  of the target service, then selects the stack, then, if that succeeded, invokes the
  run function. If stack selection or the run function fails, it emits a failure line
  that holds the elapsed duration (and nothing of the error) and raises the same error
  again, in the same way for both. If both succeed, it emits a success line that holds
  the elapsed duration and returns the empty result.
\<close>

theorem process_lifecycle:
  fixes ext t
  defines "p \<equiv> t_pulumiParams t"
  defines "start \<equiv> LogInfoStatus (getName t)
                     (chalk_gray ext (''Running '' @ chalk_white ext (t_commandDescription t))) ''active''"
  defines "failed \<equiv> LogSetError (chalk_red ext (''Failed! (took '' @ getDuration ext 1 @ '' sec)''))"
  defines "succeeded \<equiv> LogSetSuccess (chalk_green ext (''Success (took '' @ getDuration ext 1 @ '' sec)''))"
  shows "(selectStack ext p = Inl err \<longrightarrow> process ext t = (Inl err, [start, SelectStack p, failed]))
       \<and> (selectStack ext p = Inr () \<and> t_runFn t p = (Inl err, es) \<longrightarrow>
            process ext t = (Inl err, [start, SelectStack p] @ es @ [failed]))
       \<and> (selectStack ext p = Inr () \<and> t_runFn t p = (Inr (), es) \<longrightarrow>
            process ext t = (Inr (), [start, SelectStack p] @ es @ [succeeded]))"
  unfolding p_def start_def failed_def succeeded_def
  by (simp add: process_def io_bind_call call_def)

theorem process_lifecycle_witness:
  "selectStack ex_ext (t_pulumiParams (ex_task ''C'')) = Inl (Error ''no stack'')
   \<and> process ex_ext (ex_task ''C'') =
       (Inl (Error ''no stack''),
        [LogInfoStatus ''C'' ''Running pulumi refresh'' ''active'',
         SelectStack (t_pulumiParams (ex_task ''C'')),
         LogSetError ''Failed! (took 1.5 sec)''])
   \<and> selectStack ex_ext (t_pulumiParams (ex_task ''B'')) = Inr ()
   \<and> t_runFn (ex_task ''B'') (t_pulumiParams (ex_task ''B''))
       = (Inl (Error ''refresh failed''), [RefreshResources (t_pulumiParams (ex_task ''B''))])
   \<and> process ex_ext (ex_task ''B'') =
       (Inl (Error ''refresh failed''),
        [LogInfoStatus ''B'' ''Running pulumi refresh'' ''active'',
         SelectStack (t_pulumiParams (ex_task ''B'')),
         RefreshResources (t_pulumiParams (ex_task ''B'')),
         LogSetError ''Failed! (took 1.5 sec)''])
   \<and> selectStack ex_ext (t_pulumiParams (ex_task ''A'')) = Inr ()
   \<and> t_runFn (ex_task ''A'') (t_pulumiParams (ex_task ''A''))
       = (Inr (), [RefreshResources (t_pulumiParams (ex_task ''A''))])
   \<and> process ex_ext (ex_task ''A'') =
       (Inr (),
        [LogInfoStatus ''A'' ''Running pulumi refresh'' ''active'',
         SelectStack (t_pulumiParams (ex_task ''A'')),
         RefreshResources (t_pulumiParams (ex_task ''A'')),
         LogSetSuccess ''Success (took 1.5 sec)''])"
proof -
  have sC: "selectStack ex_ext (t_pulumiParams (ex_task ''C'')) = Inl (Error ''no stack'')"
    by (simp add: ex_task_def ex_service_def ex_module_def ex_ctx_def ex_provider_def ex_ext_def ex_refresh_def pulumiCommandSpecs_def PulumiPluginCommandTask_def)
  have sB: "selectStack ex_ext (t_pulumiParams (ex_task ''B'')) = Inr ()
      \<and> t_runFn (ex_task ''B'') (t_pulumiParams (ex_task ''B''))
          = (Inl (Error ''refresh failed''), [RefreshResources (t_pulumiParams (ex_task ''B''))])"
    by (simp add: ex_task_def ex_service_def ex_module_def ex_ctx_def ex_provider_def ex_ext_def ex_refresh_def pulumiCommandSpecs_def
          PulumiPluginCommandTask_def call_def)
  have sA: "selectStack ex_ext (t_pulumiParams (ex_task ''A'')) = Inr ()
      \<and> t_runFn (ex_task ''A'') (t_pulumiParams (ex_task ''A''))
          = (Inr (), [RefreshResources (t_pulumiParams (ex_task ''A''))])"
    by (simp add: ex_task_def ex_service_def ex_module_def ex_ctx_def ex_provider_def ex_ext_def ex_refresh_def pulumiCommandSpecs_def
          PulumiPluginCommandTask_def call_def)
  have nm: "getName (ex_task n) = n" "t_commandDescription (ex_task n) = ''pulumi refresh''" for n
    by (simp_all add: ex_task_def ex_service_def getName_def PulumiPluginCommandTask_def)
  have ch: "chalk_gray ex_ext = (\<lambda>s. s)" "chalk_white ex_ext = (\<lambda>s. s)" "chalk_red ex_ext = (\<lambda>s. s)"
    "chalk_green ex_ext = (\<lambda>s. s)" "getDuration ex_ext = (\<lambda>_. ''1.5'')"
    by (simp_all add: ex_ext_def)
  show ?thesis
    using sC sB sA
      process_lifecycle [of ex_ext "ex_task ''C''" "Error ''no stack''"]
      process_lifecycle [of ex_ext "ex_task ''B''" "Error ''refresh failed''" "[RefreshResources (t_pulumiParams (ex_task ''B''))]"]
      process_lifecycle [of ex_ext "ex_task ''A''" _ "[RefreshResources (t_pulumiParams (ex_task ''A''))]"]
    by (simp add: nm ch)
qed

text \<open>
  C6 as stated fails: the failure line does not include the underlying error. With the
  \<^verbatim>\<open>chalk\<close> styles switched off and a stack selection that fails with the message
  \<open>no stack\<close>, the line written by \<^verbatim>\<open>setError\<close> is \<open>Failed! (took 1.5 sec)\<close>.
\<close>

theorem process_failure_line_omits_error:
  "process ex_ext (ex_task ''C'') =
     (Inl (Error ''no stack''),
      [LogInfoStatus ''C'' ''Running pulumi refresh'' ''active'',
       SelectStack (t_pulumiParams (ex_task ''C'')),
       LogSetError ''Failed! (took 1.5 sec)''])
   \<and> \<not> sublist ''no stack'' ''Failed! (took 1.5 sec)''"
proof
  show "process ex_ext (ex_task ''C'') =
     (Inl (Error ''no stack''),
      [LogInfoStatus ''C'' ''Running pulumi refresh'' ''active'',
       SelectStack (t_pulumiParams (ex_task ''C'')),
       LogSetError ''Failed! (took 1.5 sec)''])"
    by (simp add: process_def ex_task_def ex_service_def ex_module_def ex_ctx_def ex_provider_def ex_ext_def ex_refresh_def pulumiCommandSpecs_def
          PulumiPluginCommandTask_def getName_def io_bind_call call_def)
  show "\<not> sublist ''no stack'' ''Failed! (took 1.5 sec)''"
    by code_simp
qed

subsection \<open>Dependency resolution\<close>




text \<open>Facts about the store.\<close>

lemma unchanged_refl: "unchanged s s"
  by (simp add: unchanged_def)

lemma unchanged_trans: "unchanged s s' \<Longrightarrow> unchanged s' s'' \<Longrightarrow> unchanged s s''"
  by (simp add: unchanged_def)

lemma task_value_unchanged:
  "unchanged s s' \<Longrightarrow> task_value s a = Some v \<Longrightarrow> task_value s' a = Some v"
  by (auto simp: unchanged_def task_value_def split: option.splits)

text \<open>The child that the pure embedding builds for a dependency.\<close>

lemma resolveDependencies_children:
  "resolveDependencies T =
     map (\<lambda>depService.
            PulumiPluginCommandTask
              \<lparr> tp_graph = t_graph T, tp_log = t_log T, tp_service = depService,
                tp_commandName = t_commandName T, tp_commandDescription = t_commandDescription T,
                tp_runFn = t_runFn T,
                tp_pulumiParams = (t_pulumiParams T) \<lparr> pp_module := service_module depService \<rparr> \<rparr>)
       (rel_deploy (getDependencies (t_graph T) Deploy (getName T) False
          (\<lambda>depNode. dn_name depNode \<in> set (map mod_name (filter (\<lambda>m. mod_type m = ''pulumi'') (getModules (t_graph T)))))))"
  by (simp add: resolveDependencies_def Let_def)

lemma new_child_result:
  assumes ok: "store_ok s" and self: "task_value s this = Some T"
  shows "\<exists>a s'. new_child this d s = (Inr a, s') \<and> store_ok s' \<and> unchanged s s'
           \<and> task_value s' a =
               Some (PulumiPluginCommandTask
                 \<lparr> tp_graph = t_graph T, tp_log = t_log T, tp_service = d,
                   tp_commandName = t_commandName T, tp_commandDescription = t_commandDescription T,
                   tp_runFn = t_runFn T,
                   tp_pulumiParams = (t_pulumiParams T) \<lparr> pp_module := service_module d \<rparr> \<rparr>)"
proof -
  from self obtain t g pp where t: "st_tasks s this = Some t"
    and g: "st_graphs s (o_graph t) = Some g" and pp: "st_params s (o_pulumiParams t) = Some pp"
    and T: "T = \<lparr> t_log = o_log t, t_force = o_force t, t_version = o_version t,
                  t_concurrencyLimit = o_concurrencyLimit t, t_graph = g, t_service = o_service t,
                  t_commandName = o_commandName t, t_commandDescription = o_commandDescription t,
                  t_runFn = o_runFn t, t_pulumiParams = pp \<rparr>"
    by (auto simp: task_value_def split: option.splits)
  from ok have free: "st_params s (st_next s) = None" "st_tasks s (st_next s) = None"
    "st_tasks s (Suc (st_next s)) = None" "st_params s (Suc (st_next s)) = None"
    by (simp_all add: store_ok_def)
  show ?thesis
    using t g pp free ok
    by (auto simp: new_child_def new_params_def new_PulumiPluginCommandTask_def T Let_def
          store_ok_def unchanged_def task_value_def PulumiPluginCommandTask_def)
qed

lemma map_store_children:
  assumes "store_ok s" and "task_value s this = Some T"
  shows "\<exists>as s'. map_store (new_child this) ds s = (Inr as, s') \<and> store_ok s' \<and> unchanged s s'
           \<and> map (task_value s') as =
               map (\<lambda>d. Some (PulumiPluginCommandTask
                 \<lparr> tp_graph = t_graph T, tp_log = t_log T, tp_service = d,
                   tp_commandName = t_commandName T, tp_commandDescription = t_commandDescription T,
                   tp_runFn = t_runFn T,
                   tp_pulumiParams = (t_pulumiParams T) \<lparr> pp_module := service_module d \<rparr> \<rparr>)) ds"
  using assms
proof (induction ds arbitrary: s)
  case Nil
  then show ?case by (simp add: unchanged_refl)
next
  case (Cons d ds)
  from new_child_result[OF Cons.prems, of d] obtain a s' where
    a: "new_child this d s = (Inr a, s')" and ok': "store_ok s'" and un: "unchanged s s'"
    and va: "task_value s' a =
               Some (PulumiPluginCommandTask
                 \<lparr> tp_graph = t_graph T, tp_log = t_log T, tp_service = d,
                   tp_commandName = t_commandName T, tp_commandDescription = t_commandDescription T,
                   tp_runFn = t_runFn T,
                   tp_pulumiParams = (t_pulumiParams T) \<lparr> pp_module := service_module d \<rparr> \<rparr>)"
    by blast
  from task_value_unchanged[OF un Cons.prems(2)] have self': "task_value s' this = Some T" .
  from Cons.IH[OF ok' self'] obtain as s'' where
    as: "map_store (new_child this) ds s' = (Inr as, s'')" and ok'': "store_ok s''"
    and un': "unchanged s' s''"
    and vas: "map (task_value s'') as =
               map (\<lambda>d. Some (PulumiPluginCommandTask
                 \<lparr> tp_graph = t_graph T, tp_log = t_log T, tp_service = d,
                   tp_commandName = t_commandName T, tp_commandDescription = t_commandDescription T,
                   tp_runFn = t_runFn T,
                   tp_pulumiParams = (t_pulumiParams T) \<lparr> pp_module := service_module d \<rparr> \<rparr>)) ds"
    by blast
  from task_value_unchanged[OF un' va] vas a as ok'' unchanged_trans[OF un un']
  show ?case by simp
qed

lemma resolveDependencies_st_result:
  assumes ok: "store_ok s" and self: "task_value s this = Some T"
  shows "\<exists>as s'. resolveDependencies_st this s = (Inr as, s') \<and> store_ok s' \<and> unchanged s s'
           \<and> map (task_value s') as = map Some (resolveDependencies T)"
proof -
  from self obtain t g pp where t: "st_tasks s this = Some t"
    and g: "st_graphs s (o_graph t) = Some g"
    and T: "t_graph T = g" "getName T = service_name (o_service t)"
    by (auto simp: task_value_def getName_def split: option.splits)
  from map_store_children[OF ok self] t g T show ?thesis
    by (simp add: resolveDependencies_st_def resolveDependencies_children Let_def comp_def)
qed

text \<open>
  C8. Two calls of \<^verbatim>\<open>resolveDependencies\<close> on the same task object return identical
  results. On a store that holds the task, its graph snapshot and its parameters, both
  calls return; each returns the sequence of children that the task and the snapshot
  determine, so the two sequences stand for the same tasks, equal in target service,
  command name, description, run function and parameters. Neither call writes to an
  object that existed before it: the task, the snapshot and the parameters are after
  each call what they were, and the children of the first call are untouched by the
  second.
\<close>

theorem resolveDependencies_twice_same_results:
  assumes ok: "store_ok s" and self: "task_value s this = Some T"
  shows "\<exists>as1 s1 as2 s2.
           resolveDependencies_st this s = (Inr as1, s1)
         \<and> resolveDependencies_st this s1 = (Inr as2, s2)
         \<and> map (task_value s2) as1 = map (task_value s2) as2
         \<and> map (task_value s1) as1 = map Some (resolveDependencies T)
         \<and> map (task_value s2) as2 = map Some (resolveDependencies T)
         \<and> unchanged s s1 \<and> unchanged s1 s2
         \<and> task_value s1 this = Some T \<and> task_value s2 this = Some T"
proof -
  from resolveDependencies_st_result[OF ok self] obtain as1 s1 where
    r1: "resolveDependencies_st this s = (Inr as1, s1)" and ok1: "store_ok s1"
    and un1: "unchanged s s1"
    and v1: "map (task_value s1) as1 = map Some (resolveDependencies T)"
    by blast
  from task_value_unchanged[OF un1 self] have self1: "task_value s1 this = Some T" .
  from resolveDependencies_st_result[OF ok1 self1] obtain as2 s2 where
    r2: "resolveDependencies_st this s1 = (Inr as2, s2)"
    and un2: "unchanged s1 s2"
    and v2: "map (task_value s2) as2 = map Some (resolveDependencies T)"
    by blast
  from task_value_unchanged[OF un2 self1] have self2: "task_value s2 this = Some T" .
  have "map (task_value s2) as1 = map Some (resolveDependencies T)"
  proof (rule nth_equalityI)
    from v1 show len: "length (map (task_value s2) as1) = length (map Some (resolveDependencies T))"
      by (metis length_map)
    fix i assume "i < length (map (task_value s2) as1)"
    then have i: "i < length as1" by simp
    with v1 have "task_value s1 (as1 ! i) = Some (resolveDependencies T ! i)"
      by (metis len length_map nth_map)
    from task_value_unchanged[OF un2 this] i len
    show "map (task_value s2) as1 ! i = map Some (resolveDependencies T) ! i"
      by simp
  qed
  with v2 have same: "map (task_value s2) as1 = map (task_value s2) as2" by simp
  from r1 r2 same v1 v2 un1 un2 self1 self2 show ?thesis by blast
qed

theorem resolveDependencies_twice_same_results_witness:
  "store_ok ex_store
   \<and> task_value ex_store 2 = Some (ex_task ''A'')
   \<and> fst (resolveDependencies_st 2 ex_store) = Inr [4]
   \<and> fst (resolveDependencies_st 2 (snd (resolveDependencies_st 2 ex_store))) = Inr [6]
   \<and> task_value (snd (resolveDependencies_st 2 (snd (resolveDependencies_st 2 ex_store)))) 4
       = task_value (snd (resolveDependencies_st 2 (snd (resolveDependencies_st 2 ex_store)))) 6
   \<and> map_option getName
        (task_value (snd (resolveDependencies_st 2 (snd (resolveDependencies_st 2 ex_store)))) 6)
       = Some ''B''"
proof -
  have ok: "store_ok ex_store"
    by (auto simp: store_ok_def ex_store_def)
  have self: "task_value ex_store 2 = Some (ex_task ''A'')"
    by (simp add: task_value_def ex_store_def ex_task_def PulumiPluginCommandTask_def)
  have r1: "fst (resolveDependencies_st 2 ex_store) = Inr [4]"
    by code_simp
  have r2: "fst (resolveDependencies_st 2 (snd (resolveDependencies_st 2 ex_store))) = Inr [6]"
    by code_simp
  have nm: "map_option getName
        (task_value (snd (resolveDependencies_st 2 (snd (resolveDependencies_st 2 ex_store)))) 6)
       = Some ''B''"
    by code_simp
  from resolveDependencies_twice_same_results[OF ok self] obtain as1 s1 as2 s2 where
    a: "resolveDependencies_st 2 ex_store = (Inr as1, s1)"
    and b: "resolveDependencies_st 2 s1 = (Inr as2, s2)"
    and c: "map (task_value s2) as1 = map (task_value s2) as2"
    by blast
  from a r1 have as1: "as1 = [4]" and s1: "s1 = snd (resolveDependencies_st 2 ex_store)" by simp_all
  from b r2 have as2: "as2 = [6]"
    and s2: "s2 = snd (resolveDependencies_st 2 (snd (resolveDependencies_st 2 ex_store)))"
    unfolding s1 by simp_all
  from c have same: "task_value (snd (resolveDependencies_st 2 (snd (resolveDependencies_st 2 ex_store)))) 4
       = task_value (snd (resolveDependencies_st 2 (snd (resolveDependencies_st 2 ex_store)))) 6"
    unfolding as1 as2 s2 by simp
  show ?thesis
    by (intro conjI ok self r1 r2 same nm)
qed

text \<open>
  What a child task takes from its parent. The parameters of the child are those of
  the parent with the module replaced: service, context, provider and logger stay
  the parent's.
\<close>

lemma resolveDependencies_child_fields:
  "c \<in> set (resolveDependencies T) \<Longrightarrow>
     t_commandName c = t_commandName T \<and> t_commandDescription c = t_commandDescription T
   \<and> t_runFn c = t_runFn T \<and> t_graph c = t_graph T \<and> t_log c = t_log T
   \<and> pp_module (t_pulumiParams c) = service_module (t_service c)
   \<and> pp_service (t_pulumiParams c) = pp_service (t_pulumiParams T)
   \<and> pp_ctx (t_pulumiParams c) = pp_ctx (t_pulumiParams T)
   \<and> pp_provider (t_pulumiParams c) = pp_provider (t_pulumiParams T)
   \<and> pp_log (t_pulumiParams c) = pp_log (t_pulumiParams T)"
  by (auto simp: resolveDependencies_def PulumiPluginCommandTask_def Let_def)

text \<open>
  C1 fails on the code. The task of service \<open>A\<close>, built as the handler builds it (its
  parameters name service \<open>A\<close>), has one child, for service \<open>B\<close>. The child's
  parameters hold the module of \<open>B\<close> and still the service of \<open>A\<close>.
\<close>

theorem child_params_keep_parent_service:
  "map getName (resolveDependencies (ex_task ''A'')) = [''B'']
   \<and> map (mod_name \<circ> pp_module \<circ> t_pulumiParams) (resolveDependencies (ex_task ''A'')) = [''B'']
   \<and> map (service_name \<circ> pp_service \<circ> t_pulumiParams) (resolveDependencies (ex_task ''A'')) = [''A'']
   \<and> map (service_name \<circ> pp_service \<circ> t_pulumiParams) [ex_task ''A''] = [''A'']"
  by (simp add: ex_task_def ex_service_def ex_module_def ex_node_def ex_graph_def ex_ctx_def ex_provider_def
        resolveDependencies_def getDependencies_def getModules_def direct_dependencies_def getName_def
        PulumiPluginCommandTask_def List.map_filter_def)

subsection \<open>The command handler\<close>

text \<open>
  C5. When the graph snapshot, the before-hook, the providers and the context of every
  target service resolve, the handler builds its root tasks for exactly the target
  services of the specification, in the order of the graph: with no names, every
  service of module type \<open>pulumi\<close>; with names, the named services of module type
  \<open>pulumi\<close>. A named service of another module type gets no task and causes no
  error: all the tasks built are submitted in one batch, and the handler fails only
  if that submission does. When the service names of the graph are distinct, each
  target service gets one task.
\<close>

theorem handler_target_services:
  fixes n d b r G ctx args log
  defines "H \<equiv> handler n d b r G ctx args log"
  assumes graph: "getConfigGraph G = Inr g"
    and hook: "beforeFn_outcome b ctx log = Inr ()"
    and providers: "resolveProviders G = Inr ps"
    and contexts: "\<forall>s \<in> set (target_services g args). \<exists>c. contextResolution G ctx ps g s = Inr c"
  shows "map t_service (created (snd H)) = target_services g args
       \<and> submitted (snd H) = [created (snd H)]
       \<and> fst H = map_sum id (\<lambda>_. \<lparr> hr_result = [] \<rparr>) (processTasks G (created (snd H)))
       \<and> (distinct (map service_name (graph_services g)) \<longrightarrow> distinct (map getName (created (snd H))))"
proof -
  let ?mk = "makeRootTask n d r G ctx log g ps (getModules g) (ctx_provider ctx)"
  from contexts have "\<forall>s \<in> set (target_services g args). \<exists>t. fst (?mk s) = Inr t"
    by (auto simp: makeRootTask_fst)
  then obtain ts where ts: "fst (bluebird_map ?mk (target_services g args)) = Inr ts"
    using bluebird_map_fulfils by blast
  from roots_created[OF ts] have cr: "created (snd (bluebird_map ?mk (target_services g args))) = ts"
    and sv: "map t_service ts = target_services g args" by simp_all
  from ts cr graph hook providers have H: "created (snd H) = ts" "submitted (snd H) = [ts]"
    "fst H = map_sum id (\<lambda>_. \<lparr> hr_result = [] \<rparr>) (processTasks G ts)"
    unfolding H_def handler_unfold by (simp_all add: hook_io_fst)
  have "map getName ts = map service_name (target_services g args)"
    unfolding sv[symmetric] by (simp add: getName_def)
  then have "distinct (map service_name (graph_services g)) \<Longrightarrow> distinct (map getName ts)"
    by (simp add: target_services_def distinct_map_filter)
  with H sv show ?thesis by simp
qed

theorem handler_target_services_witness:
  "getConfigGraph ex_garden = Inr ex_graph
   \<and> beforeFn_outcome (cs_beforeFn ex_refresh) ex_ctx ''log'' = Inr ()
   \<and> resolveProviders ex_garden = Inr [ex_provider]
   \<and> target_services ex_graph [''A'', ''Z''] = [ex_service ''A'' ''pulumi'']
   \<and> contextResolution ex_garden ex_ctx [ex_provider] ex_graph (ex_service ''A'' ''pulumi'') = Inr ex_ctx
   \<and> map t_service (created (snd (ex_run ex_refresh ex_garden [''A'', ''Z''])))
       = [ex_service ''A'' ''pulumi'']
   \<and> submitted (snd (ex_run ex_refresh ex_garden [''A'', ''Z'']))
       = [created (snd (ex_run ex_refresh ex_garden [''A'', ''Z'']))]
   \<and> fst (ex_run ex_refresh ex_garden [''A'', ''Z'']) = Inr \<lparr> hr_result = [] \<rparr>
   \<and> map t_service (created (snd (ex_run ex_refresh ex_garden [])))
       = [ex_service ''A'' ''pulumi'', ex_service ''B'' ''pulumi'', ex_service ''C'' ''pulumi'']
   \<and> distinct (map service_name (graph_services ex_graph))
   \<and> distinct (map getName (created (snd (ex_run ex_refresh ex_garden []))))"
proof -
  have g: "getConfigGraph ex_garden = Inr ex_graph"
    and p: "resolveProviders ex_garden = Inr [ex_provider]"
    by (simp_all add: ex_garden_def)
  have h: "beforeFn_outcome (cs_beforeFn ex_refresh) ex_ctx ''log'' = Inr ()"
    by (simp add: beforeFn_outcome_def ex_refresh_no_hook)
  have c: "\<forall>s \<in> set (target_services ex_graph args).
         \<exists>c. contextResolution ex_garden ex_ctx [ex_provider] ex_graph s = Inr c" for args
    by (simp add: ex_garden_contextResolution)
  have t1: "target_services ex_graph [''A'', ''Z''] = [ex_service ''A'' ''pulumi'']"
    by code_simp
  have t2: "target_services ex_graph []
      = [ex_service ''A'' ''pulumi'', ex_service ''B'' ''pulumi'', ex_service ''C'' ''pulumi'']"
    by code_simp
  have d: "distinct (map service_name (graph_services ex_graph))"
    by (simp add: ex_graph_def ex_service_def)
  have r: "fst (ex_run ex_refresh ex_garden [''A'', ''Z'']) = Inr \<lparr> hr_result = [] \<rparr>"
    by code_simp
  note named = handler_target_services
    [where n = "cs_name ex_refresh" and d = "cs_commandDescription ex_refresh"
       and r = "cs_runFn ex_refresh" and args = "[''A'', ''Z'']",
     OF g h p c, folded ex_run_handler, unfolded t1]
  note every = handler_target_services
    [where n = "cs_name ex_refresh" and d = "cs_commandDescription ex_refresh"
       and r = "cs_runFn ex_refresh" and args = "[]",
     OF g h p c, folded ex_run_handler, unfolded t2]
  from named have n1: "map t_service (created (snd (ex_run ex_refresh ex_garden [''A'', ''Z''])))
       = [ex_service ''A'' ''pulumi'']"
    and n2: "submitted (snd (ex_run ex_refresh ex_garden [''A'', ''Z'']))
       = [created (snd (ex_run ex_refresh ex_garden [''A'', ''Z'']))]"
    by blast+
  from every have e1: "map t_service (created (snd (ex_run ex_refresh ex_garden [])))
       = [ex_service ''A'' ''pulumi'', ex_service ''B'' ''pulumi'', ex_service ''C'' ''pulumi'']"
    by blast
  from every d have e2: "distinct (map getName (created (snd (ex_run ex_refresh ex_garden []))))"
    by blast
  have cA: "contextResolution ex_garden ex_ctx [ex_provider] ex_graph (ex_service ''A'' ''pulumi'') = Inr ex_ctx"
    by (simp add: ex_garden_contextResolution ex_ctx_def)
  show ?thesis
    by (intro conjI g h p t1 cA n1 n2 r e1 d e2)
qed

text \<open>
  C7. For a command with a before-hook, the graph snapshot is resolved once; the hook
  is invoked at most once, and no task is constructed and no batch is submitted before
  it is; and when the hook fails, the handler fails with the error of the hook, its
  trace ends with the calls of the hook, no task is constructed and nothing is
  submitted.
\<close>

theorem handler_beforeFn_first:
  fixes n d f r G ctx args log
  defines "H \<equiv> handler n d (Some f) r G ctx args log"
  shows "count_list (snd H) GetConfigGraph = 1
       \<and> count_list (snd H) CallBeforeFn \<le> 1
       \<and> created (takeWhile (\<lambda>e. e \<noteq> CallBeforeFn) (snd H)) = []
       \<and> submitted (takeWhile (\<lambda>e. e \<noteq> CallBeforeFn) (snd H)) = []
       \<and> (created (snd H) \<noteq> [] \<or> submitted (snd H) \<noteq> [] \<longrightarrow> CallBeforeFn \<in> set (snd H))
       \<and> (getConfigGraph G = Inr g \<and> fst (f ctx log) = Inl err \<longrightarrow>
            fst H = Inl err \<and> created (snd H) = [] \<and> submitted (snd H) = []
            \<and> snd H = GetConfigGraph # CallBeforeFn # map HookEvent (snd (f ctx log)))"
proof -
  have hk: "snd (hook_io (Some f) ctx log) = CallBeforeFn # map HookEvent (snd (f ctx log))"
    "fst (hook_io (Some f) ctx log) = fst (f ctx log)"
    by (simp_all add: hook_io_def run_beforeFn_def)
  have cnt: "count_list (map HookEvent es) GetConfigGraph = 0" "count_list (map HookEvent es) CallBeforeFn = 0" for es
    by (induction es) simp_all
  have cnt': "count_list (snd (bluebird_map (makeRootTask n d r G ctx log g' ps ms p) xs)) GetConfigGraph = 0"
    "count_list (snd (bluebird_map (makeRootTask n d r G ctx log g' ps ms p) xs)) CallBeforeFn = 0" for g' ps ms p xs
    using roots_no_graph_or_hook[of n d r G ctx log g' ps ms p xs] by (simp_all add: count_list_0_iff)
  show ?thesis
    unfolding H_def handler_unfold hk
    by (simp add: cnt cnt' split: sum.splits)
qed

theorem handler_beforeFn_first_witness:
  "getConfigGraph ex_garden = Inr ex_graph
   \<and> fst (the (cs_beforeFn ex_preview_no_dir) ex_ctx ''log'') = Inl (Error ''EACCES'')
   \<and> fst (ex_run ex_preview_no_dir ex_garden []) = Inl (Error ''EACCES'')
   \<and> created (snd (ex_run ex_preview_no_dir ex_garden [])) = []
   \<and> submitted (snd (ex_run ex_preview_no_dir ex_garden [])) = []
   \<and> snd (ex_run ex_preview_no_dir ex_garden [])
       = [GetConfigGraph, CallBeforeFn,
          HookEvent (LogInfo ''Clearing preview dir at /preview...''),
          HookEvent (EmptyDir ''/preview'')]
   \<and> count_list (snd (ex_run ex_preview_no_dir ex_garden [])) GetConfigGraph = 1
   \<and> created (snd (ex_run ex_preview ex_garden [])) \<noteq> []
   \<and> CallBeforeFn \<in> set (snd (ex_run ex_preview ex_garden []))
   \<and> count_list (snd (ex_run ex_preview ex_garden [])) GetConfigGraph = 1
   \<and> created (takeWhile (\<lambda>e. e \<noteq> CallBeforeFn) (snd (ex_run ex_preview ex_garden []))) = []"
proof -
  have g: "getConfigGraph ex_garden = Inr ex_graph"
    by (simp add: ex_garden_def)
  have hook1: "cs_beforeFn ex_preview_no_dir = Some (the (cs_beforeFn ex_preview_no_dir))"
    and hook2: "cs_beforeFn ex_preview = Some (the (cs_beforeFn ex_preview))"
    by (simp_all add: ex_preview_no_dir_def ex_preview_def pulumiCommandSpecs_def)
  have run1: "ex_run ex_preview_no_dir ex_garden [] =
      handler (cs_name ex_preview_no_dir) (cs_commandDescription ex_preview_no_dir)
        (Some (the (cs_beforeFn ex_preview_no_dir))) (cs_runFn ex_preview_no_dir) ex_garden ex_ctx [] ''log''"
    unfolding ex_run_handler using hook1 by simp
  have run2: "ex_run ex_preview ex_garden [] =
      handler (cs_name ex_preview) (cs_commandDescription ex_preview)
        (Some (the (cs_beforeFn ex_preview))) (cs_runFn ex_preview) ex_garden ex_ctx [] ''log''"
    unfolding ex_run_handler using hook2 by simp
  have f: "the (cs_beforeFn ex_preview_no_dir) ex_ctx ''log'' =
      (Inl (Error ''EACCES''),
       [LogInfo ''Clearing preview dir at /preview...'', EmptyDir ''/preview''])"
    by (simp add: ex_preview_no_dir_def ex_ext_no_dir_def ex_ext_def pulumiCommandSpecs_def
          io_bind_call call_def)
  then have f1: "fst (the (cs_beforeFn ex_preview_no_dir) ex_ctx ''log'') = Inl (Error ''EACCES'')"
    by simp
  have some: "map getName (created (snd (ex_run ex_preview ex_garden []))) = [''A'', ''B'', ''C'']"
    by code_simp
  then have ne: "created (snd (ex_run ex_preview ex_garden [])) \<noteq> []"
    by auto
  note fails = handler_beforeFn_first
    [where n = "cs_name ex_preview_no_dir" and d = "cs_commandDescription ex_preview_no_dir"
       and f = "the (cs_beforeFn ex_preview_no_dir)" and r = "cs_runFn ex_preview_no_dir"
       and G = ex_garden and ctx = ex_ctx and args = "[]" and log = "''log''"
       and g = ex_graph and err = "Error ''EACCES''", folded run1]
  note passes = handler_beforeFn_first
    [where n = "cs_name ex_preview" and d = "cs_commandDescription ex_preview"
       and f = "the (cs_beforeFn ex_preview)" and r = "cs_runFn ex_preview"
       and G = ex_garden and ctx = ex_ctx and args = "[]" and log = "''log''"
       and g = ex_graph and err = "Error ''EACCES''", folded run2]
  from fails g f1 have a: "fst (ex_run ex_preview_no_dir ex_garden []) = Inl (Error ''EACCES'')"
    and b: "created (snd (ex_run ex_preview_no_dir ex_garden [])) = []"
    and c: "submitted (snd (ex_run ex_preview_no_dir ex_garden [])) = []"
    and d: "snd (ex_run ex_preview_no_dir ex_garden [])
       = GetConfigGraph # CallBeforeFn # map HookEvent (snd (the (cs_beforeFn ex_preview_no_dir) ex_ctx ''log''))"
    by blast+
  from d have d': "snd (ex_run ex_preview_no_dir ex_garden [])
       = [GetConfigGraph, CallBeforeFn,
          HookEvent (LogInfo ''Clearing preview dir at /preview...''),
          HookEvent (EmptyDir ''/preview'')]"
    unfolding f by simp
  from fails have e: "count_list (snd (ex_run ex_preview_no_dir ex_garden [])) GetConfigGraph = 1"
    by (rule conjunct1)
  from passes ne have i: "CallBeforeFn \<in> set (snd (ex_run ex_preview ex_garden []))"
    by blast
  from passes have j: "count_list (snd (ex_run ex_preview ex_garden [])) GetConfigGraph = 1"
    by (rule conjunct1)
  from passes have k: "created (takeWhile (\<lambda>e. e \<noteq> CallBeforeFn) (snd (ex_run ex_preview ex_garden []))) = []"
    by blast
  show ?thesis
    by (intro conjI g f1 a b c d' e ne i j k)
qed

text \<open>
  C4, as amended. The handler submits at most one batch; the batch holds all the root
  tasks that were constructed; whenever the handler returns a value, that value is the
  empty result \<^verbatim>\<open>{ result: {} }\<close> and the batch was submitted. The outcome that the
  engine reports for the batch is not returned: only a failure of the submission
  itself reaches the caller.
\<close>

theorem handler_single_batch_empty_result:
  fixes n d b r G ctx args log
  defines "H \<equiv> handler n d b r G ctx args log"
  shows "length (submitted (snd H)) \<le> 1
       \<and> (\<forall>ts \<in> set (submitted (snd H)).
             ts = created (snd H)
           \<and> fst H = map_sum id (\<lambda>_. \<lparr> hr_result = [] \<rparr>) (processTasks G ts))
       \<and> (\<forall>res. fst H = Inr res \<longrightarrow> res = \<lparr> hr_result = [] \<rparr> \<and> submitted (snd H) = [created (snd H)])"
  unfolding H_def handler_unfold
  by (auto split: sum.splits dest: roots_created map_sum_const_Inr)

theorem handler_single_batch_empty_result_witness:
  "fst (ex_run ex_refresh ex_garden []) = Inr \<lparr> hr_result = [] \<rparr>
   \<and> submitted (snd (ex_run ex_refresh ex_garden [])) = [created (snd (ex_run ex_refresh ex_garden []))]
   \<and> created (snd (ex_run ex_refresh ex_garden [])) \<in> set (submitted (snd (ex_run ex_refresh ex_garden [])))
   \<and> fst (ex_run ex_refresh ex_garden [])
       = map_sum id (\<lambda>_. \<lparr> hr_result = [] \<rparr>) (processTasks ex_garden (created (snd (ex_run ex_refresh ex_garden []))))
   \<and> length (submitted (snd (ex_run ex_refresh ex_garden []))) \<le> 1
   \<and> map getName (created (snd (ex_run ex_refresh ex_garden []))) = [''A'', ''B'', ''C'']"
proof -
  have r: "fst (ex_run ex_refresh ex_garden []) = Inr \<lparr> hr_result = [] \<rparr>"
    by code_simp
  have names: "map getName (created (snd (ex_run ex_refresh ex_garden []))) = [''A'', ''B'', ''C'']"
    by code_simp
  note inst = handler_single_batch_empty_result
    [where n = "cs_name ex_refresh" and d = "cs_commandDescription ex_refresh"
       and b = "cs_beforeFn ex_refresh" and r = "cs_runFn ex_refresh" and G = ex_garden
       and ctx = ex_ctx and args = "[]" and log = "''log''", folded ex_run_handler]
  from inst r have sub: "submitted (snd (ex_run ex_refresh ex_garden [])) = [created (snd (ex_run ex_refresh ex_garden []))]"
    by blast
  then have mem: "created (snd (ex_run ex_refresh ex_garden [])) \<in> set (submitted (snd (ex_run ex_refresh ex_garden [])))"
    by simp
  with inst have eq: "fst (ex_run ex_refresh ex_garden [])
       = map_sum id (\<lambda>_. \<lparr> hr_result = [] \<rparr>) (processTasks ex_garden (created (snd (ex_run ex_refresh ex_garden []))))"
    by blast
  from inst have len: "length (submitted (snd (ex_run ex_refresh ex_garden []))) \<le> 1"
    by (rule conjunct1)
  show ?thesis
    by (intro conjI r sub mem eq len names)
qed

text \<open>
  C4 as stated fails: the handler does not return the outcome of the engine. On the
  small project the engine reports a success for each of \<open>A\<close>, \<open>B\<close> and \<open>C\<close>, and the
  handler returns the empty result.
\<close>

theorem handler_discards_engine_outcome:
  "fst (ex_run ex_refresh ex_garden []) = Inr \<lparr> hr_result = [] \<rparr>
   \<and> map (processTasks ex_garden) (submitted (snd (ex_run ex_refresh ex_garden [])))
       = [Inr [(''A'', TaskSucceeded), (''B'', TaskSucceeded), (''C'', TaskSucceeded)]]"
  by code_simp

text \<open>
  C2, as amended. When the graph snapshot, the before-hook and the providers resolve
  and the context resolution of a target service fails, the handler fails with the
  context-resolution error of a target service, and nothing is submitted to the
  engine: the tasks of the other services are not submitted either.
\<close>

theorem handler_context_failure_aborts:
  fixes n d b r G ctx args log
  defines "H \<equiv> handler n d b r G ctx args log"
  assumes graph: "getConfigGraph G = Inr g"
    and hook: "beforeFn_outcome b ctx log = Inr ()"
    and providers: "resolveProviders G = Inr ps"
    and target: "s \<in> set (target_services g args)"
    and fails: "contextResolution G ctx ps g s = Inl err"
  shows "(\<exists>s' \<in> set (target_services g args). \<exists>err'.
            contextResolution G ctx ps g s' = Inl err' \<and> fst H = Inl err')
       \<and> submitted (snd H) = []"
proof -
  let ?mk = "makeRootTask n d r G ctx log g ps (getModules g) (ctx_provider ctx)"
  from fails have "fst (?mk s) = Inl err"
    by (simp add: makeRootTask_fst)
  with target obtain err' where e: "fst (bluebird_map ?mk (target_services g args)) = Inl err'"
    using bluebird_map_rejects by fastforce
  then obtain s' where s': "s' \<in> set (target_services g args)" "fst (?mk s') = Inl err'"
    using bluebird_map_Inl by fastforce
  from s'(2) have "contextResolution G ctx ps g s' = Inl err'"
    unfolding makeRootTask_fst by (rule map_sum_id_Inl)
  moreover from e graph hook providers have "fst H = Inl err' \<and> submitted (snd H) = []"
    unfolding H_def handler_unfold by (simp add: hook_io_fst)
  ultimately show ?thesis using s'(1) by blast
qed

theorem handler_context_failure_aborts_witness:
  "getConfigGraph ex_garden_no_ctx = Inr ex_graph
   \<and> beforeFn_outcome (cs_beforeFn ex_refresh) ex_ctx ''log'' = Inr ()
   \<and> resolveProviders ex_garden_no_ctx = Inr [ex_provider]
   \<and> ex_service ''A'' ''pulumi'' \<in> set (target_services ex_graph [])
   \<and> contextResolution ex_garden_no_ctx ex_ctx [ex_provider] ex_graph (ex_service ''A'' ''pulumi'')
       = Inl (Error ''no context for A'')
   \<and> fst (ex_run ex_refresh ex_garden_no_ctx []) = Inl (Error ''no context for A'')
   \<and> submitted (snd (ex_run ex_refresh ex_garden_no_ctx [])) = []"
proof -
  have g: "getConfigGraph ex_garden_no_ctx = Inr ex_graph"
    and p: "resolveProviders ex_garden_no_ctx = Inr [ex_provider]"
    by (simp_all add: ex_garden_no_ctx_def ex_garden_def)
  have h: "beforeFn_outcome (cs_beforeFn ex_refresh) ex_ctx ''log'' = Inr ()"
    by (simp add: beforeFn_outcome_def ex_refresh_no_hook)
  have s: "ex_service ''A'' ''pulumi'' \<in> set (target_services ex_graph [])"
    by (simp add: target_services_def ex_graph_def ex_service_def ex_module_def)
  have c: "contextResolution ex_garden_no_ctx ex_ctx [ex_provider] ex_graph (ex_service ''A'' ''pulumi'')
       = Inl (Error ''no context for A'')"
    by code_simp
  have r: "fst (ex_run ex_refresh ex_garden_no_ctx []) = Inl (Error ''no context for A'')"
    by code_simp
  from handler_context_failure_aborts
    [where n = "cs_name ex_refresh" and d = "cs_commandDescription ex_refresh"
       and r = "cs_runFn ex_refresh", OF g h p s c, folded ex_run_handler]
  have n: "submitted (snd (ex_run ex_refresh ex_garden_no_ctx [])) = []"
    by (rule conjunct2)
  show ?thesis
    by (intro conjI g h p s c r n)
qed

text \<open>
  C2 as stated fails: one failing context resolution stops the submission of every
  task. On the small project no context can be built for \<open>A\<close> while the context of \<open>B\<close>
  resolves; the handler fails with the error of \<open>A\<close> and submits nothing.
\<close>

theorem handler_context_failure_submits_nothing:
  "contextResolution ex_garden_no_ctx ex_ctx [ex_provider] ex_graph (ex_service ''A'' ''pulumi'')
     = Inl (Error ''no context for A'')
   \<and> contextResolution ex_garden_no_ctx ex_ctx [ex_provider] ex_graph (ex_service ''B'' ''pulumi'')
     = Inr ex_ctx
   \<and> target_services ex_graph []
     = [ex_service ''A'' ''pulumi'', ex_service ''B'' ''pulumi'', ex_service ''C'' ''pulumi'']
   \<and> fst (ex_run ex_refresh ex_garden_no_ctx []) = Inl (Error ''no context for A'')
   \<and> submitted (snd (ex_run ex_refresh ex_garden_no_ctx [])) = []"
  by code_simp

subsection \<open>The attributes of a constructed task\<close>

text \<open>
  C9. Every task is constructed with its force flag off, with the version of its
  target service, and with the concurrency limit of the provider of the plugin context
  in its parameters: the constructor gives these attributes, and so have the children
  that \<^verbatim>\<open>resolveDependencies\<close> returns, the root tasks that the handler constructs
  and the tasks that it submits.
\<close>

theorem tasks_constructed_attributes:
  fixes n d b r G ctx args log
  defines "H \<equiv> handler n d b r G ctx args log"
  shows "constructed_attributes (PulumiPluginCommandTask p)
       \<and> (\<forall>c \<in> set (resolveDependencies T). constructed_attributes c)
       \<and> (\<forall>t \<in> set (created (snd H)). constructed_attributes t)
       \<and> (\<forall>ts \<in> set (submitted (snd H)). \<forall>t \<in> set ts. constructed_attributes t)"
proof (intro conjI)
  show "constructed_attributes (PulumiPluginCommandTask p)"
    by (simp add: constructed_attributes_def PulumiPluginCommandTask_def)
  show "\<forall>c \<in> set (resolveDependencies T). constructed_attributes c"
    by (auto simp: resolveDependencies_def constructed_attributes_def PulumiPluginCommandTask_def)
  show c: "\<forall>t \<in> set (created (snd H)). constructed_attributes t"
    unfolding H_def handler_unfold
    by (auto split: sum.splits dest: roots_attributes)
  show "\<forall>ts \<in> set (submitted (snd H)). \<forall>t \<in> set ts. constructed_attributes t"
    using c unfolding H_def handler_unfold
    by (auto split: sum.splits dest: roots_created)
qed

theorem tasks_constructed_attributes_witness:
  "resolveDependencies (ex_task ''A'') \<noteq> []
   \<and> hd (resolveDependencies (ex_task ''A'')) \<in> set (resolveDependencies (ex_task ''A''))
   \<and> constructed_attributes (hd (resolveDependencies (ex_task ''A'')))
   \<and> hd (created (snd (ex_run ex_refresh ex_garden []))) \<in> set (created (snd (ex_run ex_refresh ex_garden [])))
   \<and> constructed_attributes (hd (created (snd (ex_run ex_refresh ex_garden []))))
   \<and> hd (submitted (snd (ex_run ex_refresh ex_garden []))) \<in> set (submitted (snd (ex_run ex_refresh ex_garden [])))
   \<and> hd (hd (submitted (snd (ex_run ex_refresh ex_garden [])))) \<in> set (hd (submitted (snd (ex_run ex_refresh ex_garden []))))
   \<and> constructed_attributes (hd (hd (submitted (snd (ex_run ex_refresh ex_garden [])))))
   \<and> t_force (hd (created (snd (ex_run ex_refresh ex_garden [])))) = False
   \<and> t_version (hd (created (snd (ex_run ex_refresh ex_garden [])))) = ''v-A''
   \<and> t_concurrencyLimit (hd (created (snd (ex_run ex_refresh ex_garden [])))) = 5
   \<and> map t_version (resolveDependencies (ex_task ''A'')) = [''v-B'']"
proof -
  have c1: "map getName (resolveDependencies (ex_task ''A'')) = [''B'']"
    by code_simp
  then have ne1: "resolveDependencies (ex_task ''A'') \<noteq> []" by auto
  have c2: "map getName (created (snd (ex_run ex_refresh ex_garden []))) = [''A'', ''B'', ''C'']"
    by code_simp
  then have ne2: "created (snd (ex_run ex_refresh ex_garden [])) \<noteq> []" by auto
  have c3: "map (map getName) (submitted (snd (ex_run ex_refresh ex_garden []))) = [[''A'', ''B'', ''C'']]"
    by code_simp
  then have ne3: "submitted (snd (ex_run ex_refresh ex_garden [])) \<noteq> []" by auto
  from c3 have "map getName (hd (submitted (snd (ex_run ex_refresh ex_garden [])))) = [''A'', ''B'', ''C'']"
    using ne3 by (cases "submitted (snd (ex_run ex_refresh ex_garden []))") auto
  then have ne4: "hd (submitted (snd (ex_run ex_refresh ex_garden []))) \<noteq> []" by auto
  note m1 = hd_in_set[OF ne1] and m2 = hd_in_set[OF ne2] and m3 = hd_in_set[OF ne3] and m4 = hd_in_set[OF ne4]
  note inst = tasks_constructed_attributes
    [where n = "cs_name ex_refresh" and d = "cs_commandDescription ex_refresh"
       and b = "cs_beforeFn ex_refresh" and r = "cs_runFn ex_refresh" and G = ex_garden
       and ctx = ex_ctx and args = "[]" and log = "''log''" and T = "ex_task ''A''",
     folded ex_run_handler]
  from inst m1 have a1: "constructed_attributes (hd (resolveDependencies (ex_task ''A'')))" by blast
  from inst m2 have a2: "constructed_attributes (hd (created (snd (ex_run ex_refresh ex_garden []))))" by blast
  from inst m3 m4 have a3: "constructed_attributes (hd (hd (submitted (snd (ex_run ex_refresh ex_garden [])))))" by blast
  have v: "t_force (hd (created (snd (ex_run ex_refresh ex_garden [])))) = False"
    "t_version (hd (created (snd (ex_run ex_refresh ex_garden [])))) = ''v-A''"
    "t_concurrencyLimit (hd (created (snd (ex_run ex_refresh ex_garden [])))) = 5"
    "map t_version (resolveDependencies (ex_task ''A'')) = [''v-B'']"
    by code_simp+
  show ?thesis
    by (intro conjI ne1 m1 a1 m2 a2 m3 m4 a3 v)
qed

end
